theory Spec2Isabelle
  imports Main
begin

section \<open>Configuration (config.py)\<close>

text \<open>
  The fields of \<open>Settings\<close> that the credential layer reads. A path that is
  \<open>Optional[str]\<close> in the source is a \<open>string option\<close>.
\<close>

record settings =
  google_service_account_path :: "string option"
  google_credentials_path :: string
  google_token_path :: string
  gmail_scopes :: "string list"
  calendar_scopes :: "string list"
  drive_scopes :: "string list"

text \<open>The dictionary built inside \<open>get_google_scopes\<close>.\<close>

definition scope_mapping :: "settings \<Rightarrow> (string \<rightharpoonup> string list)" where
  "scope_mapping st =
     [''gmail'' \<mapsto> gmail_scopes st,
      ''calendar'' \<mapsto> calendar_scopes st,
      ''drive'' \<mapsto> drive_scopes st]"

text \<open>\<open>scope_mapping.get(service, [])\<close>: an unknown service gets the empty list.\<close>

definition get_google_scopes :: "settings \<Rightarrow> string \<Rightarrow> string list" where
  "get_google_scopes st service =
     (case scope_mapping st service of None \<Rightarrow> [] | Some scopes \<Rightarrow> scopes)"

section \<open>Exceptions, credentials, the world\<close>

text \<open>
  \<open>GoogleAuthError\<close> is the one exception class that google\_auth.py declares; every
  other \<open>Exception\<close> (raised by a library call or by the file system) is
  \<open>Exception\<close> with its message.
\<close>

datatype exn = GoogleAuthError string | Exception string

fun str_exn :: "exn \<Rightarrow> string" where
  "str_exn (GoogleAuthError m) = m"
| "str_exn (Exception m) = m"

text \<open>
  What the code observes of a credentials object: \<open>creds.valid\<close>,
  \<open>creds.expired\<close>, \<open>creds.refresh_token\<close> and \<open>creds.to_json()\<close>.
\<close>

record credentials =
  valid :: bool
  expired :: bool
  refresh_token :: "string option"
  to_json :: string

text \<open>Python truthiness of an optional string: \<open>None\<close> and \<open>""\<close> are false.\<close>

fun truthy :: "string option \<Rightarrow> bool" where
  "truthy None = False"
| "truthy (Some s) = (s \<noteq> [])"

text \<open>The object made by \<open>InstalledAppFlow.from_client_secrets_file\<close>.\<close>

datatype flow = InstalledAppFlow string "string list"

datatype level = DEBUG | INFO | WARNING | ERROR

text \<open>
  Every operation that touches durable storage or the network, and every log record,
  leaves an event, in program order, with what it was called on and what came back.
\<close>

datatype 's io_event =
    is_Log: Log level string
  | is_PathExists: PathExists string bool
  | is_ServiceAccountLoad: ServiceAccountLoad string "exn + credentials"
  | is_TokenLoad: TokenLoad string "exn + credentials"
  | is_Refresh: Refresh "exn + credentials"
  | is_FlowLoad: FlowLoad string "exn + flow"
  | is_RunLocalServer: RunLocalServer "exn + credentials"
  | is_FileWrite: FileWrite string string "exn option"
  | is_Build: Build string string "exn + 's"
  | is_GetProfile: GetProfile "exn + (string \<rightharpoonup> string)"

text \<open>
  The state a call can read and change: the files on disk (path to contents), the
  manager's \<open>_services\<close> dictionary, the events so far, and the state of everything
  outside the process (identity provider, API backend, clock), of which the model knows
  nothing.
\<close>

record ('r, 's) world =
  files :: "string \<rightharpoonup> string"
  services :: "string \<rightharpoonup> 's"
  io :: "'s io_event list"
  remote :: 'r

text \<open>
  The libraries the module calls and the process-wide settings. Each library call reads
  the outside state and returns its result (an exception or a value) with the new outside
  state. \<open>hash\<close> is Python's hash of the tuple of scopes, fixed for a process.
\<close>

record ('r, 's) env =
  settings :: settings
  hash :: "string list \<Rightarrow> int"
  from_service_account_file :: "'r \<Rightarrow> string \<Rightarrow> string list \<Rightarrow> (exn + credentials) \<times> 'r"
  from_authorized_user_file :: "'r \<Rightarrow> string \<Rightarrow> string list \<Rightarrow> (exn + credentials) \<times> 'r"
  refresh :: "'r \<Rightarrow> credentials \<Rightarrow> (exn + credentials) \<times> 'r"
  from_client_secrets_file :: "'r \<Rightarrow> string \<Rightarrow> string list \<Rightarrow> (exn + flow) \<times> 'r"
  run_local_server :: "'r \<Rightarrow> flow \<Rightarrow> (exn + credentials) \<times> 'r"
  open_w :: "'r \<Rightarrow> string \<Rightarrow> exn option"
  build :: "'r \<Rightarrow> string \<Rightarrow> string \<Rightarrow> credentials \<Rightarrow> (exn + 's) \<times> 'r"
  getProfile :: "'r \<Rightarrow> 's \<Rightarrow> (exn + (string \<rightharpoonup> string)) \<times> 'r"

section \<open>Logging (logger.py)\<close>

definition logger_log :: "level \<Rightarrow> string \<Rightarrow> ('r, 's) world \<Rightarrow> ('r, 's) world" where
  "logger_log lvl msg w = w\<lparr>io := io w @ [Log lvl msg]\<rparr>"

definition log_api_call :: "string \<Rightarrow> string \<Rightarrow> ('r, 's) world \<Rightarrow> ('r, 's) world" where
  "log_api_call service operation w =
     logger_log INFO (''API call to '' @ service @ '': '' @ operation) w"

definition log_error :: "exn \<Rightarrow> string \<Rightarrow> ('r, 's) world \<Rightarrow> ('r, 's) world" where
  "log_error error context w =
     logger_log ERROR (''Error in '' @ context @ '': '' @ str_exn error) w"

section \<open>Storage and library calls as steps on the world\<close>

definition emit :: "'s io_event \<Rightarrow> 'r \<Rightarrow> ('r, 's) world \<Rightarrow> ('r, 's) world" where
  "emit e r w = w\<lparr>io := io w @ [e], remote := r\<rparr>"

text \<open>\<open>os.path.exists(path)\<close>\<close>

definition path_exists :: "string \<Rightarrow> ('r, 's) world \<Rightarrow> bool \<times> ('r, 's) world" where
  "path_exists path w =
     (files w path \<noteq> None, emit (PathExists path (files w path \<noteq> None)) (remote w) w)"

text \<open>The contents of a file that a library call reads; the empty text if it is gone.\<close>

definition contents :: "('r, 's) world \<Rightarrow> string \<Rightarrow> string" where
  "contents w path = (case files w path of None \<Rightarrow> [] | Some c \<Rightarrow> c)"

text \<open>
  \<open>with open(path, 'w') as f: f.write(text)\<close>: the file then holds exactly
  \<open>text\<close>, or the open fails and nothing is written.
\<close>

definition write_file ::
  "('r, 's) env \<Rightarrow> string \<Rightarrow> string \<Rightarrow> ('r, 's) world \<Rightarrow> (exn + unit) \<times> ('r, 's) world" where
  "write_file env path text w =
     (case open_w env (remote w) path of
        Some e \<Rightarrow> (Inl e, emit (FileWrite path text (Some e)) (remote w) w)
      | None \<Rightarrow>
          (Inr (),
           (emit (FileWrite path text None) (remote w) w)\<lparr>files := (files w)(path \<mapsto> text)\<rparr>))"

section \<open>Decimal text of an integer (the f-string of the hash)\<close>

function str_nat :: "nat \<Rightarrow> string" where
  "str_nat n =
     (if n < 10 then [''0123456789'' ! n]
      else str_nat (n div 10) @ [''0123456789'' ! (n mod 10)])"
  by pat_completeness auto
termination
  by (relation "measure id") auto

declare str_nat.simps [simp del]

definition str_int :: "int \<Rightarrow> string" where
  "str_int i = (if i < 0 then CHR ''-'' # str_nat (nat (- i)) else str_nat (nat i))"

section \<open>GoogleServiceManager (google\_auth.py)\<close>

text \<open>
  Lines 45 to 51 of \<open>_get_credentials\<close>: the attempt to load an existing token. A
  failure of the load is caught here, logged as a warning, and leaves \<open>creds\<close> at
  \<open>None\<close>.
\<close>

definition load_token ::
  "('r, 's) env \<Rightarrow> string list \<Rightarrow> ('r, 's) world \<Rightarrow> credentials option \<times> ('r, 's) world" where
  "load_token env scopes w =
     (let path = google_token_path (settings env) in
      case path_exists path w of
        (False, w1) \<Rightarrow> (None, w1)
      | (True, w1) \<Rightarrow>
          (case from_authorized_user_file env (remote w1) (contents w1 path) scopes of
             (Inr creds, r) \<Rightarrow>
               (Some creds,
                logger_log DEBUG ''Loaded existing credentials from token file''
                  (emit (TokenLoad path (Inr creds)) r w1))
           | (Inl e, r) \<Rightarrow>
               (None,
                logger_log WARNING (''Failed to load existing credentials: '' @ str_exn e)
                  (emit (TokenLoad path (Inl e)) r w1))))"

text \<open>Lines 59 to 67: the interactive consent flow.\<close>

definition oauth_flow ::
  "('r, 's) env \<Rightarrow> string list \<Rightarrow> ('r, 's) world \<Rightarrow> (exn + credentials) \<times> ('r, 's) world" where
  "oauth_flow env scopes w =
     (let w0 = logger_log INFO ''Creating new credentials via OAuth flow'' w;
          path = google_credentials_path (settings env) in
      case path_exists path w0 of
        (False, w1) \<Rightarrow> (Inl (GoogleAuthError (''Credentials file not found: '' @ path)), w1)
      | (True, w1) \<Rightarrow>
          (case from_client_secrets_file env (remote w1) (contents w1 path) scopes of
             (Inl e, r) \<Rightarrow> (Inl e, emit (FlowLoad path (Inl e)) r w1)
           | (Inr fl, r) \<Rightarrow>
               (let w2 = emit (FlowLoad path (Inr fl)) r w1 in
                case run_local_server env (remote w2) fl of
                  (res, r') \<Rightarrow> (res, emit (RunLocalServer res) r' w2))))"

text \<open>Lines 69 to 72: the token is saved.\<close>

definition save_token ::
  "('r, 's) env \<Rightarrow> credentials \<Rightarrow> ('r, 's) world \<Rightarrow> (exn + credentials) \<times> ('r, 's) world" where
  "save_token env creds w =
     (case write_file env (google_token_path (settings env)) (to_json creds) w of
        (Inl e, w1) \<Rightarrow> (Inl e, w1)
      | (Inr _, w1) \<Rightarrow> (Inr creds, logger_log INFO ''Credentials saved for future use'' w1))"

text \<open>Lines 53 to 74: refresh the loaded token or create a new one, then save it.\<close>

definition refresh_or_create ::
  "('r, 's) env \<Rightarrow> string list \<Rightarrow> credentials option \<Rightarrow> ('r, 's) world \<Rightarrow>
     (exn + credentials) \<times> ('r, 's) world" where
  "refresh_or_create env scopes creds w =
     (case creds of
        Some c \<Rightarrow>
          (if valid c then (Inr c, w)
           else if expired c \<and> truthy (refresh_token c) then
             (let w0 = logger_log INFO ''Refreshing expired credentials'' w in
              case refresh env (remote w0) c of
                (Inl e, r) \<Rightarrow> (Inl e, emit (Refresh (Inl e)) r w0)
              | (Inr c', r) \<Rightarrow> save_token env c' (emit (Refresh (Inr c')) r w0))
           else
             (case oauth_flow env scopes w of
                (Inl e, w1) \<Rightarrow> (Inl e, w1)
              | (Inr c', w1) \<Rightarrow> save_token env c' w1))
      | None \<Rightarrow>
          (case oauth_flow env scopes w of
             (Inl e, w1) \<Rightarrow> (Inl e, w1)
           | (Inr c', w1) \<Rightarrow> save_token env c' w1))"

text \<open>Lines 41 to 74: the OAuth2 path.\<close>

definition oauth2_credentials ::
  "('r, 's) env \<Rightarrow> string list \<Rightarrow> ('r, 's) world \<Rightarrow> (exn + credentials) \<times> ('r, 's) world" where
  "oauth2_credentials env scopes w =
     (case load_token env scopes (logger_log INFO ''Using OAuth2 authentication'' w) of
        (creds, w1) \<Rightarrow> refresh_or_create env scopes creds w1)"

text \<open>Lines 33 to 39: the service-account path.\<close>

definition service_account_credentials ::
  "('r, 's) env \<Rightarrow> string \<Rightarrow> string list \<Rightarrow> ('r, 's) world \<Rightarrow>
     (exn + credentials) \<times> ('r, 's) world" where
  "service_account_credentials env path scopes w =
     (let w0 = logger_log INFO ''Using service account authentication'' w in
      case from_service_account_file env (remote w0) (contents w0 path) scopes of
        (res, r) \<Rightarrow> (res, emit (ServiceAccountLoad path res) r w0))"

text \<open>
  The body of the \<open>try\<close> of \<open>_get_credentials\<close>, lines 32 to 74. The
  \<open>and\<close> of line 33 asks the file system only for a path that is set and not empty.
\<close>

definition get_credentials_try ::
  "('r, 's) env \<Rightarrow> string list \<Rightarrow> ('r, 's) world \<Rightarrow> (exn + credentials) \<times> ('r, 's) world" where
  "get_credentials_try env scopes w =
     (case google_service_account_path (settings env) of
        None \<Rightarrow> oauth2_credentials env scopes w
      | Some path \<Rightarrow>
          (if path = [] then oauth2_credentials env scopes w
           else
             (case path_exists path w of
                (True, w1) \<Rightarrow> service_account_credentials env path scopes w1
              | (False, w1) \<Rightarrow> oauth2_credentials env scopes w1)))"

text \<open>
  \<open>_get_credentials\<close> (the leading underscore is dropped): every exception of the
  body is logged and raised again as a \<open>GoogleAuthError\<close>.
\<close>

definition get_credentials ::
  "('r, 's) env \<Rightarrow> string list \<Rightarrow> ('r, 's) world \<Rightarrow> (exn + credentials) \<times> ('r, 's) world" where
  "get_credentials env scopes w =
     (case get_credentials_try env scopes w of
        (Inr creds, w1) \<Rightarrow> (Inr creds, w1)
      | (Inl e, w1) \<Rightarrow>
          (Inl (GoogleAuthError (''Failed to authenticate with Google: '' @ str_exn e)),
           log_error e ''Google authentication'' w1))"

text \<open>Line 88: the key under which a service is cached.\<close>

definition service_key :: "('r, 's) env \<Rightarrow> string \<Rightarrow> string \<Rightarrow> string list \<Rightarrow> string" where
  "service_key env api_name api_version scopes =
     api_name @ ''_'' @ api_version @ ''_'' @ str_int (hash env scopes)"

text \<open>The \<open>except\<close> clause of \<open>get_service\<close>, lines 108 to 110.\<close>

definition service_error :: "string \<Rightarrow> exn \<Rightarrow> ('r, 's) world \<Rightarrow> (exn + 's) \<times> ('r, 's) world" where
  "service_error api_name e w =
     (Inl (GoogleAuthError (''Failed to create '' @ api_name @ '' service: '' @ str_exn e)),
      log_error e (''Google service creation for '' @ api_name) w)"

text \<open>Lines 84 and 85: the scopes a call works with.\<close>

definition resolve_scopes :: "('r, 's) env \<Rightarrow> string \<Rightarrow> string list option \<Rightarrow> string list" where
  "resolve_scopes env api_name scopes_arg =
     (case scopes_arg of
        None \<Rightarrow> get_google_scopes (settings env) api_name
      | Some scopes \<Rightarrow> scopes)"

definition get_service ::
  "('r, 's) env \<Rightarrow> string \<Rightarrow> string \<Rightarrow> string list option \<Rightarrow> ('r, 's) world \<Rightarrow>
     (exn + 's) \<times> ('r, 's) world" where
  "get_service env api_name api_version scopes_arg w =
     (let scopes = resolve_scopes env api_name scopes_arg;
          key = service_key env api_name api_version scopes in
      case services w key of
        Some service \<Rightarrow>
          (Inr service, logger_log DEBUG (''Returning cached service for '' @ api_name) w)
      | None \<Rightarrow>
          (case get_credentials env scopes w of
             (Inl e, w1) \<Rightarrow> service_error api_name e w1
           | (Inr creds, w1) \<Rightarrow>
               (let w2 = log_api_call ''Google'' (''build_'' @ api_name) w1 in
                case build env (remote w2) api_name api_version creds of
                  (Inl e, r) \<Rightarrow>
                    service_error api_name e (emit (Build api_name api_version (Inl e)) r w2)
                | (Inr service, r) \<Rightarrow>
                    (Inr service,
                     logger_log INFO
                       (''Created new service for '' @ api_name @ '' v'' @ api_version)
                       ((emit (Build api_name api_version (Inr service)) r w2)
                          \<lparr>services := (services w2)(key \<mapsto> service)\<rparr>)))))"

definition clear_cache :: "('r, 's) world \<Rightarrow> ('r, 's) world" where
  "clear_cache w = logger_log INFO ''Cleared service cache'' (w\<lparr>services := Map.empty\<rparr>)"

text \<open>The module-level function, which calls the global manager.\<close>

definition get_google_service ::
  "('r, 's) env \<Rightarrow> string \<Rightarrow> string \<Rightarrow> string list option \<Rightarrow> ('r, 's) world \<Rightarrow>
     (exn + 's) \<times> ('r, 's) world" where
  "get_google_service env api_name api_version scopes_arg w =
     get_service env api_name api_version scopes_arg w"

text \<open>
  \<open>validate_credentials\<close>: any exception of the service creation or of the
  profile request is logged and answered with \<open>False\<close>.
\<close>

definition validate_credentials :: "('r, 's) env \<Rightarrow> ('r, 's) world \<Rightarrow> bool \<times> ('r, 's) world" where
  "validate_credentials env w =
     (case get_google_service env ''gmail'' ''v1'' None w of
        (Inl e, w1) \<Rightarrow> (False, log_error e ''Credential validation'' w1)
      | (Inr service, w1) \<Rightarrow>
          (case getProfile env (remote w1) service of
             (Inl e, r) \<Rightarrow>
               (False, log_error e ''Credential validation'' (emit (GetProfile (Inl e)) r w1))
           | (Inr profile, r) \<Rightarrow>
               (True,
                logger_log INFO
                  (''Credentials validated for user: '' @
                     (case profile ''emailAddress'' of None \<Rightarrow> ''Unknown'' | Some a \<Rightarrow> a))
                  (emit (GetProfile (Inr profile)) r w1))))"

text \<open>The events that a step from \<open>w\<close> to \<open>w'\<close> added.\<close>

definition new_io :: "('r, 's) world \<Rightarrow> ('r, 's) world \<Rightarrow> 's io_event list" where
  "new_io w w' = drop (length (io w)) (io w')"

text \<open>The condition of line 33: a service-account key is configured and its file exists.\<close>

definition service_account_configured :: "('r, 's) env \<Rightarrow> ('r, 's) world \<Rightarrow> bool" where
  "service_account_configured env w =
     (case google_service_account_path (settings env) of
        None \<Rightarrow> False
      | Some path \<Rightarrow> path \<noteq> [] \<and> files w path \<noteq> None)"

section \<open>Stand-ins for the libraries, for concrete runs\<close>

text \<open>The defaults of the \<open>Settings\<close> fields.\<close>

definition default_settings :: settings where
  "default_settings =
     \<lparr>google_service_account_path = None,
      google_credentials_path = ''credentials.json'',
      google_token_path = ''token.json'',
      gmail_scopes = [''https://www.googleapis.com/auth/gmail.readonly'',
                      ''https://www.googleapis.com/auth/gmail.modify'',
                      ''https://www.googleapis.com/auth/gmail.send''],
      calendar_scopes = [''https://www.googleapis.com/auth/calendar''],
      drive_scopes = [''https://www.googleapis.com/auth/drive.readonly'',
                      ''https://www.googleapis.com/auth/drive.file'']\<rparr>"

text \<open>The same with a service-account key configured.\<close>

definition service_account_settings :: settings where
  "service_account_settings =
     default_settings\<lparr>google_service_account_path := Some ''service-account.json''\<rparr>"

definition usable :: "string \<Rightarrow> credentials" where
  "usable json = \<lparr>valid = True, expired = False, refresh_token = Some ''refresh'', to_json = json\<rparr>"

text \<open>A token file holds one of four words; anything else does not parse.\<close>

definition stub_token :: "string \<Rightarrow> exn + credentials" where
  "stub_token text =
     (if text = ''valid'' then Inr (usable ''valid'')
      else if text = ''expired'' then
        Inr \<lparr>valid = False, expired = True, refresh_token = Some ''refresh'', to_json = ''expired''\<rparr>
      else if text = ''revoked'' then
        Inr \<lparr>valid = False, expired = True, refresh_token = Some ''revoked'', to_json = ''revoked''\<rparr>
      else if text = ''no-refresh'' then
        Inr \<lparr>valid = False, expired = True, refresh_token = None, to_json = ''no-refresh''\<rparr>
      else Inl (Exception ''not a token''))"

text \<open>A hash that depends on the order of the scopes, as the hash of a Python tuple does.\<close>

definition stub_hash :: "string list \<Rightarrow> int" where
  "stub_hash scopes = foldl (\<lambda>h s. 31 * h + int (length s)) 7 scopes"

text \<open>
  The outside state counts the remote calls served so far; a built service is numbered by
  the count at its creation, so two builds give two different handles.
\<close>

definition stub_env :: "settings \<Rightarrow> (nat, nat) env" where
  "stub_env st =
     \<lparr>settings = st,
      hash = stub_hash,
      from_service_account_file =
        (\<lambda>r text scopes.
           (if text = ''key'' then Inr (usable ''service-account'')
            else Inl (Exception ''bad key''), r)),
      from_authorized_user_file = (\<lambda>r text scopes. (stub_token text, r)),
      refresh =
        (\<lambda>r c. (if refresh_token c = Some ''refresh'' then Inr (usable ''refreshed'')
                 else Inl (Exception ''invalid_grant''), Suc r)),
      from_client_secrets_file =
        (\<lambda>r text scopes.
           (if text = ''client'' then Inr (InstalledAppFlow text scopes)
            else Inl (Exception ''bad client secrets''), r)),
      run_local_server = (\<lambda>r fl. (Inr (usable ''consented''), Suc r)),
      open_w = (\<lambda>r path. None),
      build =
        (\<lambda>r api_name api_version c.
           (if api_name = ''nosuch'' then Inl (Exception ''unknown api'') else Inr r, Suc r)),
      getProfile = (\<lambda>r service. (Inr [''emailAddress'' \<mapsto> ''user@example.com''], Suc r))\<rparr>"

definition stub_world :: "(string \<rightharpoonup> string) \<Rightarrow> (nat, nat) world" where
  "stub_world fs = \<lparr>files = fs, services = Map.empty, io = [], remote = 0\<rparr>"

section \<open>What each step reads and leaves unchanged\<close>

lemma logger_log_simps [simp]:
  "files (logger_log l m w) = files w"
  "services (logger_log l m w) = services w"
  "io (logger_log l m w) = io w @ [Log l m]"
  "remote (logger_log l m w) = remote w"
  by (simp_all add: logger_log_def)

lemma log_error_simps [simp]:
  "files (log_error e c w) = files w"
  "services (log_error e c w) = services w"
  "io (log_error e c w) = io w @ [Log ERROR (''Error in '' @ c @ '': '' @ str_exn e)]"
  "remote (log_error e c w) = remote w"
  by (simp_all add: log_error_def)

lemma log_api_call_simps [simp]:
  "files (log_api_call s c w) = files w"
  "services (log_api_call s c w) = services w"
  "io (log_api_call s c w) = io w @ [Log INFO (''API call to '' @ s @ '': '' @ c)]"
  "remote (log_api_call s c w) = remote w"
  by (simp_all add: log_api_call_def)

lemma emit_simps [simp]:
  "files (emit e r w) = files w"
  "services (emit e r w) = services w"
  "io (emit e r w) = io w @ [e]"
  "remote (emit e r w) = r"
  by (simp_all add: emit_def)

lemma path_exists_simps [simp]:
  "fst (path_exists p w) = (files w p \<noteq> None)"
  "files (snd (path_exists p w)) = files w"
  "services (snd (path_exists p w)) = services w"
  "io (snd (path_exists p w)) = io w @ [PathExists p (files w p \<noteq> None)]"
  "remote (snd (path_exists p w)) = remote w"
  by (simp_all add: path_exists_def)

lemma contents_simps [simp]:
  "contents (logger_log l m w) p = contents w p"
  "contents (emit e r w) p = contents w p"
  "contents (snd (path_exists q w)) p = contents w p"
  by (simp_all add: contents_def)

lemma new_io_self [simp]: "new_io w w = []"
  by (simp add: new_io_def)

lemma ext_new_io: "\<exists>es. io w' = io w @ es \<Longrightarrow> io w' = io w @ new_io w w'"
  by (auto simp: new_io_def)

subsection \<open>Credential resolution never touches the cache\<close>

lemma load_token_services [simp]:
  "services (snd (load_token env scopes w)) = services w"
  by (simp add: load_token_def Let_def split_beta split: sum.splits bool.splits)

lemma write_file_services [simp]:
  "services (snd (write_file env p t w)) = services w"
  by (simp add: write_file_def split: option.splits)

lemma save_token_services [simp]:
  "services (snd (save_token env c w)) = services w"
  by (simp add: save_token_def split_beta split: sum.splits)

lemma oauth_flow_services [simp]:
  "services (snd (oauth_flow env scopes w)) = services w"
  by (simp add: oauth_flow_def Let_def split_beta split: sum.splits bool.splits)

lemma refresh_or_create_services [simp]:
  "services (snd (refresh_or_create env scopes c w)) = services w"
  by (simp add: refresh_or_create_def Let_def split_beta split: sum.splits option.splits)

lemma oauth2_credentials_services [simp]:
  "services (snd (oauth2_credentials env scopes w)) = services w"
  by (simp add: oauth2_credentials_def split_beta)

lemma service_account_credentials_services [simp]:
  "services (snd (service_account_credentials env p scopes w)) = services w"
  by (simp add: service_account_credentials_def Let_def split_beta)

lemma get_credentials_try_services [simp]:
  "services (snd (get_credentials_try env scopes w)) = services w"
  by (simp add: get_credentials_try_def split_beta split: option.splits bool.splits)

lemma get_credentials_services [simp]:
  "services (snd (get_credentials env scopes w)) = services w"
  by (simp add: get_credentials_def split_beta split: sum.splits)

subsection \<open>The trace only grows\<close>

lemma load_token_ext: "\<exists>es. io (snd (load_token env scopes w)) = io w @ es"
  by (simp add: load_token_def Let_def split_beta split: sum.splits bool.splits)

lemma load_token_io [simp]:
  "io (snd (load_token env scopes w)) = io w @ new_io w (snd (load_token env scopes w))"
  by (rule ext_new_io [OF load_token_ext])

lemma save_token_ext: "\<exists>es. io (snd (save_token env c w)) = io w @ es"
  by (simp add: save_token_def write_file_def split_beta split: sum.splits option.splits)

lemma save_token_io [simp]:
  "io (snd (save_token env c w)) = io w @ new_io w (snd (save_token env c w))"
  by (rule ext_new_io [OF save_token_ext])

lemma oauth_flow_ext: "\<exists>es. io (snd (oauth_flow env scopes w)) = io w @ es"
  by (simp add: oauth_flow_def Let_def split_beta split: sum.splits bool.splits)

lemma oauth_flow_io [simp]:
  "io (snd (oauth_flow env scopes w)) = io w @ new_io w (snd (oauth_flow env scopes w))"
  by (rule ext_new_io [OF oauth_flow_ext])

lemma refresh_or_create_ext: "\<exists>es. io (snd (refresh_or_create env scopes c w)) = io w @ es"
  by (simp add: refresh_or_create_def Let_def split_beta split: sum.splits option.splits)

lemma refresh_or_create_io [simp]:
  "io (snd (refresh_or_create env scopes c w)) =
     io w @ new_io w (snd (refresh_or_create env scopes c w))"
  by (rule ext_new_io [OF refresh_or_create_ext])

lemma oauth2_credentials_ext: "\<exists>es. io (snd (oauth2_credentials env scopes w)) = io w @ es"
  by (simp add: oauth2_credentials_def split_beta)

lemma oauth2_credentials_io [simp]:
  "io (snd (oauth2_credentials env scopes w)) =
     io w @ new_io w (snd (oauth2_credentials env scopes w))"
  by (rule ext_new_io [OF oauth2_credentials_ext])

lemma service_account_credentials_ext:
  "\<exists>es. io (snd (service_account_credentials env p scopes w)) = io w @ es"
  by (simp add: service_account_credentials_def Let_def split_beta)

lemma service_account_credentials_io [simp]:
  "io (snd (service_account_credentials env p scopes w)) =
     io w @ new_io w (snd (service_account_credentials env p scopes w))"
  by (rule ext_new_io [OF service_account_credentials_ext])

lemma get_credentials_try_ext: "\<exists>es. io (snd (get_credentials_try env scopes w)) = io w @ es"
  by (simp add: get_credentials_try_def split_beta split: option.splits bool.splits)

lemma get_credentials_try_io [simp]:
  "io (snd (get_credentials_try env scopes w)) =
     io w @ new_io w (snd (get_credentials_try env scopes w))"
  by (rule ext_new_io [OF get_credentials_try_ext])

lemma get_credentials_ext: "\<exists>es. io (snd (get_credentials env scopes w)) = io w @ es"
  by (simp add: get_credentials_def split_beta split: sum.splits)

lemma get_credentials_io [simp]:
  "io (snd (get_credentials env scopes w)) =
     io w @ new_io w (snd (get_credentials env scopes w))"
  by (rule ext_new_io [OF get_credentials_ext])


subsection \<open>Splitting the events of a call into those of its steps\<close>

lemma new_io_step:
  "io w' = io w @ es \<Longrightarrow> length (io w0) \<le> length (io w) \<Longrightarrow> new_io w0 w' = new_io w0 w @ es"
  by (simp add: new_io_def)

lemma new_io_basic [simp]:
  "length (io w0) \<le> length (io w) \<Longrightarrow> new_io w0 (logger_log l m w) = new_io w0 w @ [Log l m]"
  "length (io w0) \<le> length (io w) \<Longrightarrow> new_io w0 (emit e r w) = new_io w0 w @ [e]"
  "length (io w0) \<le> length (io w) \<Longrightarrow>
     new_io w0 (log_error x c w) = new_io w0 w @ [Log ERROR (''Error in '' @ c @ '': '' @ str_exn x)]"
  "length (io w0) \<le> length (io w) \<Longrightarrow>
     new_io w0 (log_api_call s operation w) =
       new_io w0 w @ [Log INFO (''API call to '' @ s @ '': '' @ operation)]"
  "length (io w0) \<le> length (io w) \<Longrightarrow>
     new_io w0 (snd (path_exists p w)) = new_io w0 w @ [PathExists p (files w p \<noteq> None)]"
  "new_io w0 (w\<lparr>files := f\<rparr>) = new_io w0 w"
  "new_io w0 (w\<lparr>services := sv\<rparr>) = new_io w0 w"
  by (simp_all add: new_io_def)

lemma new_io_load_token_split [simp]:
  "NO_MATCH w0 w \<Longrightarrow> length (io w0) \<le> length (io w) \<Longrightarrow>
   new_io w0 (snd (load_token env scopes w)) =
     new_io w0 w @ new_io w (snd (load_token env scopes w))"
  by (rule new_io_step [OF load_token_io])

lemma new_io_save_token_split [simp]:
  "NO_MATCH w0 w \<Longrightarrow> length (io w0) \<le> length (io w) \<Longrightarrow>
   new_io w0 (snd (save_token env c w)) = new_io w0 w @ new_io w (snd (save_token env c w))"
  by (rule new_io_step [OF save_token_io])

lemma new_io_oauth_flow_split [simp]:
  "NO_MATCH w0 w \<Longrightarrow> length (io w0) \<le> length (io w) \<Longrightarrow>
   new_io w0 (snd (oauth_flow env scopes w)) =
     new_io w0 w @ new_io w (snd (oauth_flow env scopes w))"
  by (rule new_io_step [OF oauth_flow_io])

lemma new_io_refresh_or_create_split [simp]:
  "NO_MATCH w0 w \<Longrightarrow> length (io w0) \<le> length (io w) \<Longrightarrow>
   new_io w0 (snd (refresh_or_create env scopes c w)) =
     new_io w0 w @ new_io w (snd (refresh_or_create env scopes c w))"
  by (rule new_io_step [OF refresh_or_create_io])

lemma new_io_oauth2_credentials_split [simp]:
  "NO_MATCH w0 w \<Longrightarrow> length (io w0) \<le> length (io w) \<Longrightarrow>
   new_io w0 (snd (oauth2_credentials env scopes w)) =
     new_io w0 w @ new_io w (snd (oauth2_credentials env scopes w))"
  by (rule new_io_step [OF oauth2_credentials_io])

lemma new_io_service_account_credentials_split [simp]:
  "NO_MATCH w0 w \<Longrightarrow> length (io w0) \<le> length (io w) \<Longrightarrow>
   new_io w0 (snd (service_account_credentials env p scopes w)) =
     new_io w0 w @ new_io w (snd (service_account_credentials env p scopes w))"
  by (rule new_io_step [OF service_account_credentials_io])

lemma new_io_get_credentials_try_split [simp]:
  "NO_MATCH w0 w \<Longrightarrow> length (io w0) \<le> length (io w) \<Longrightarrow>
   new_io w0 (snd (get_credentials_try env scopes w)) =
     new_io w0 w @ new_io w (snd (get_credentials_try env scopes w))"
  by (rule new_io_step [OF get_credentials_try_io])

lemma new_io_get_credentials_split [simp]:
  "NO_MATCH w0 w \<Longrightarrow> length (io w0) \<le> length (io w) \<Longrightarrow>
   new_io w0 (snd (get_credentials env scopes w)) =
     new_io w0 w @ new_io w (snd (get_credentials env scopes w))"
  by (rule new_io_step [OF get_credentials_io])

subsection \<open>The steps that call one library function\<close>

lemma save_token_fst:
  "fst (save_token env c w) =
     (case open_w env (remote w) (google_token_path (settings env)) of
        None \<Rightarrow> Inr c | Some e \<Rightarrow> Inl e)"
  by (simp add: save_token_def write_file_def split_beta split: option.splits)

lemma save_token_files:
  "files (snd (save_token env c w)) =
     (case open_w env (remote w) (google_token_path (settings env)) of
        None \<Rightarrow> (files w)(google_token_path (settings env) \<mapsto> to_json c)
      | Some e \<Rightarrow> files w)"
  by (simp add: save_token_def write_file_def split_beta split: option.splits)

lemma save_token_new_io:
  "new_io w (snd (save_token env c w)) =
     (case open_w env (remote w) (google_token_path (settings env)) of
        None \<Rightarrow> [FileWrite (google_token_path (settings env)) (to_json c) None,
                 Log INFO ''Credentials saved for future use'']
      | Some e \<Rightarrow> [FileWrite (google_token_path (settings env)) (to_json c) (Some e)])"
  by (simp add: save_token_def write_file_def split_beta split: option.splits)

lemma load_token_fst:
  "fst (load_token env scopes w) =
     (if files w (google_token_path (settings env)) = None then None
      else (case fst (from_authorized_user_file env (remote w)
                   (contents w (google_token_path (settings env))) scopes) of
              Inr c \<Rightarrow> Some c | Inl e \<Rightarrow> None))"
  by (simp add: load_token_def Let_def split_beta split: sum.splits bool.splits)

lemma load_token_files [simp]: "files (snd (load_token env scopes w)) = files w"
  by (simp add: load_token_def Let_def split_beta split: sum.splits bool.splits)

lemma load_token_new_io:
  "new_io w (snd (load_token env scopes w)) =
     (if files w (google_token_path (settings env)) = None
      then [PathExists (google_token_path (settings env)) False]
      else (case fst (from_authorized_user_file env (remote w)
                   (contents w (google_token_path (settings env))) scopes) of
              Inr c \<Rightarrow>
                [PathExists (google_token_path (settings env)) True,
                 TokenLoad (google_token_path (settings env)) (Inr c),
                 Log DEBUG ''Loaded existing credentials from token file'']
            | Inl e \<Rightarrow>
                [PathExists (google_token_path (settings env)) True,
                 TokenLoad (google_token_path (settings env)) (Inl e),
                 Log WARNING (''Failed to load existing credentials: '' @ str_exn e)]))"
  by (simp add: load_token_def Let_def split_beta split: sum.splits bool.splits)

lemma oauth_flow_files [simp]: "files (snd (oauth_flow env scopes w)) = files w"
  by (simp add: oauth_flow_def Let_def split_beta split: sum.splits bool.splits)

lemma oauth_flow_new_io:
  "new_io w (snd (oauth_flow env scopes w)) =
     Log INFO ''Creating new credentials via OAuth flow'' #
     (if files w (google_credentials_path (settings env)) = None
      then [PathExists (google_credentials_path (settings env)) False]
      else PathExists (google_credentials_path (settings env)) True #
        (case from_client_secrets_file env (remote w)
                (contents w (google_credentials_path (settings env))) scopes of
           (Inl e, r) \<Rightarrow> [FlowLoad (google_credentials_path (settings env)) (Inl e)]
         | (Inr fl, r) \<Rightarrow>
             [FlowLoad (google_credentials_path (settings env)) (Inr fl),
              RunLocalServer (fst (run_local_server env r fl))]))"
  by (simp add: oauth_flow_def Let_def split_beta split: sum.splits bool.splits)

lemma service_account_credentials_files [simp]:
  "files (snd (service_account_credentials env p scopes w)) = files w"
  by (simp add: service_account_credentials_def Let_def split_beta)

lemma service_account_credentials_new_io:
  "new_io w (snd (service_account_credentials env p scopes w)) =
     [Log INFO ''Using service account authentication'',
      ServiceAccountLoad p (fst (from_service_account_file env (remote w) (contents w p) scopes))]"
  by (simp add: service_account_credentials_def Let_def split_beta)

lemma service_account_credentials_fst:
  "fst (service_account_credentials env p scopes w) =
     fst (from_service_account_file env (remote w) (contents w p) scopes)"
  by (simp add: service_account_credentials_def Let_def split_beta)

text \<open>The definitions to unfold when the model is run on concrete input.\<close>

lemmas run_defs = get_service_def resolve_scopes_def get_google_scopes_def scope_mapping_def
  service_key_def get_credentials_def get_credentials_try_def oauth2_credentials_def
  service_account_credentials_def refresh_or_create_def save_token_def write_file_def
  oauth_flow_def load_token_def path_exists_def contents_def emit_def logger_log_def
  log_error_def log_api_call_def service_error_def stub_env_def stub_world_def stub_token_def
  usable_def default_settings_def service_account_settings_def clear_cache_def

text \<open>The events of the steps that make one library call, as explicit lists.\<close>

lemmas leaf_new_io = save_token_new_io load_token_new_io oauth_flow_new_io
  service_account_credentials_new_io

subsection \<open>A failed refresh\<close>

lemma refresh_or_create_refresh_failed:
  assumes "Refresh (Inl e) \<in> set (new_io w (snd (refresh_or_create env scopes c w)))"
  shows "fst (refresh_or_create env scopes c w) = Inl e \<and>
         files (snd (refresh_or_create env scopes c w)) = files w \<and>
         (\<forall>x \<in> set (new_io w (snd (refresh_or_create env scopes c w))).
            \<not> is_RunLocalServer x \<and> \<not> is_FlowLoad x \<and> \<not> is_FileWrite x)"
  using assms
  by (cases c; cases "fst (refresh env (remote w) (the c))")
     (auto simp: refresh_or_create_def Let_def split_beta leaf_new_io
      split: option.splits sum.splits if_splits)

lemma oauth2_credentials_refresh_failed:
  assumes "Refresh (Inl e) \<in> set (new_io w (snd (oauth2_credentials env scopes w)))"
  shows "fst (oauth2_credentials env scopes w) = Inl e \<and>
         files (snd (oauth2_credentials env scopes w)) = files w \<and>
         (\<forall>x \<in> set (new_io w (snd (oauth2_credentials env scopes w))).
            \<not> is_RunLocalServer x \<and> \<not> is_FlowLoad x \<and> \<not> is_FileWrite x)"
  using assms
  by (auto simp: oauth2_credentials_def split_beta load_token_new_io
      dest!: refresh_or_create_refresh_failed split: sum.splits if_splits)

lemma get_credentials_try_refresh_failed:
  assumes "Refresh (Inl e) \<in> set (new_io w (snd (get_credentials_try env scopes w)))"
  shows "fst (get_credentials_try env scopes w) = Inl e \<and>
         files (snd (get_credentials_try env scopes w)) = files w \<and>
         (\<forall>x \<in> set (new_io w (snd (get_credentials_try env scopes w))).
            \<not> is_RunLocalServer x \<and> \<not> is_FlowLoad x \<and> \<not> is_FileWrite x)"
  using assms
  by (auto simp: get_credentials_try_def split_beta service_account_credentials_new_io
      dest!: oauth2_credentials_refresh_failed split: option.splits if_splits bool.splits)

lemma get_credentials_refresh_failed:
  assumes "Refresh (Inl e) \<in> set (new_io w (snd (get_credentials env scopes w)))"
  shows "fst (get_credentials env scopes w) =
           Inl (GoogleAuthError (''Failed to authenticate with Google: '' @ str_exn e)) \<and>
         files (snd (get_credentials env scopes w)) = files w \<and>
         (\<forall>x \<in> set (new_io w (snd (get_credentials env scopes w))).
            \<not> is_RunLocalServer x \<and> \<not> is_FlowLoad x \<and> \<not> is_FileWrite x)"
  using assms
  by (auto simp: get_credentials_def split_beta
      dest!: get_credentials_try_refresh_failed split: sum.splits)

subsection \<open>get_service\<close>

lemma get_service_hit:
  "services w (service_key env api_name api_version (resolve_scopes env api_name scopes)) = Some h
   \<Longrightarrow> get_service env api_name api_version scopes w =
         (Inr h, logger_log DEBUG (''Returning cached service for '' @ api_name) w)"
  by (simp add: get_service_def Let_def)

lemma get_service_miss:
  "services w (service_key env api_name api_version (resolve_scopes env api_name scopes)) = None
   \<Longrightarrow> get_service env api_name api_version scopes w =
     (case get_credentials env (resolve_scopes env api_name scopes) w of
        (Inl e, w1) \<Rightarrow> service_error api_name e w1
      | (Inr creds, w1) \<Rightarrow>
          (let w2 = log_api_call ''Google'' (''build_'' @ api_name) w1 in
           case build env (remote w2) api_name api_version creds of
             (Inl e, r) \<Rightarrow>
               service_error api_name e (emit (Build api_name api_version (Inl e)) r w2)
           | (Inr service, r) \<Rightarrow>
               (Inr service,
                logger_log INFO
                  (''Created new service for '' @ api_name @ '' v'' @ api_version)
                  ((emit (Build api_name api_version (Inr service)) r w2)
                     \<lparr>services := (services w2)
                        (service_key env api_name api_version
                           (resolve_scopes env api_name scopes) \<mapsto> service)\<rparr>))))"
  by (simp add: get_service_def Let_def)

lemma get_service_caches:
  assumes "get_service env api_name api_version scopes w = (Inr h, w1)"
  shows "services w1 (service_key env api_name api_version (resolve_scopes env api_name scopes))
           = Some h"
proof (cases "services w (service_key env api_name api_version
                (resolve_scopes env api_name scopes))")
  case None
  from assms show ?thesis
    unfolding get_service_miss [OF None]
    by (auto simp: service_error_def Let_def split_beta split: sum.splits)
next
  case (Some h')
  from assms show ?thesis
    unfolding get_service_hit [OF Some] using Some by auto
qed

lemma get_service_refresh_failed:
  assumes "Refresh (Inl e) \<in> set (new_io w (snd (get_service env api_name api_version scopes w)))"
  shows "fst (get_service env api_name api_version scopes w) =
           Inl (GoogleAuthError (''Failed to create '' @ api_name @
             '' service: Failed to authenticate with Google: '' @ str_exn e)) \<and>
         (\<forall>x \<in> set (new_io w (snd (get_service env api_name api_version scopes w))).
            \<not> is_RunLocalServer x \<and> \<not> is_FlowLoad x \<and> \<not> is_FileWrite x) \<and>
         files (snd (get_service env api_name api_version scopes w)) = files w \<and>
         services (snd (get_service env api_name api_version scopes w)) = services w"
proof (cases "services w (service_key env api_name api_version
                (resolve_scopes env api_name scopes))")
  case None
  from assms show ?thesis
    unfolding get_service_miss [OF None]
    by (auto simp: service_error_def Let_def split_beta
        dest!: get_credentials_refresh_failed split: sum.splits)
next
  case (Some h')
  from assms show ?thesis
    unfolding get_service_hit [OF Some] by simp
qed

lemma get_service_error:
  assumes "fst (get_service env api_name api_version scopes w) = Inl x"
  shows "(\<exists>m. x = GoogleAuthError m) \<and>
         services (snd (get_service env api_name api_version scopes w)) = services w"
  using assms
  by (auto simp: get_service_def service_error_def Let_def split_beta
      split: sum.splits option.splits)


lemma get_service_same_hash:
  assumes "hash env scopes1 = hash env scopes2"
    and "get_service env api_name api_version (Some scopes1) w = (Inr h, w1)"
  shows "get_service env api_name api_version (Some scopes2) w1 =
           (Inr h, logger_log DEBUG (''Returning cached service for '' @ api_name) w1)"
proof -
  have "service_key env api_name api_version (resolve_scopes env api_name (Some scopes2)) =
        service_key env api_name api_version (resolve_scopes env api_name (Some scopes1))"
    using assms(1) by (simp add: service_key_def resolve_scopes_def)
  with get_service_caches [OF assms(2)] show ?thesis
    by (simp add: get_service_hit)
qed

lemma get_google_scopes_unknown:
  "api_name \<notin> {''gmail'', ''calendar'', ''drive''} \<Longrightarrow> get_google_scopes st api_name = []"
  by (simp add: get_google_scopes_def scope_mapping_def)

lemma get_service_unknown:
  "api_name \<notin> {''gmail'', ''calendar'', ''drive''} \<Longrightarrow>
   get_google_scopes (settings env) api_name = [] \<and>
   get_service env api_name api_version None w = get_service env api_name api_version (Some []) w"
  by (simp add: get_service_def resolve_scopes_def get_google_scopes_unknown)

lemma oauth_flow_result:
  "fst (oauth_flow env scopes w) =
     (if files w (google_credentials_path (settings env)) = None
      then Inl (GoogleAuthError
                 (''Credentials file not found: '' @ google_credentials_path (settings env)))
      else (case from_client_secrets_file env (remote w)
                   (contents w (google_credentials_path (settings env))) scopes of
              (Inl e, r) \<Rightarrow> Inl e
            | (Inr fl, r) \<Rightarrow> fst (run_local_server env r fl)))"
  by (simp add: oauth_flow_def Let_def split_beta split: sum.splits bool.splits)

subsection \<open>Fresh credentials are saved\<close>

lemma refresh_or_create_saved:
  assumes "Refresh (Inr c) \<in> set (new_io w (snd (refresh_or_create env scopes cr w))) \<or>
           RunLocalServer (Inr c) \<in> set (new_io w (snd (refresh_or_create env scopes cr w)))"
    and "fst (refresh_or_create env scopes cr w) = Inr c'"
  shows "c' = c \<and>
         files (snd (refresh_or_create env scopes cr w)) =
           (files w)(google_token_path (settings env) \<mapsto> to_json c)"
  using assms
  by (cases cr; cases "fst (refresh env (remote w) (the cr))")
     (auto simp: refresh_or_create_def Let_def split_beta save_token_new_io save_token_fst
        save_token_files oauth_flow_new_io oauth_flow_result
      split: option.splits sum.splits if_splits)

lemma oauth2_credentials_saved:
  assumes "Refresh (Inr c) \<in> set (new_io w (snd (oauth2_credentials env scopes w))) \<or>
           RunLocalServer (Inr c) \<in> set (new_io w (snd (oauth2_credentials env scopes w)))"
    and "fst (oauth2_credentials env scopes w) = Inr c'"
  shows "c' = c \<and>
         files (snd (oauth2_credentials env scopes w)) =
           (files w)(google_token_path (settings env) \<mapsto> to_json c)"
  using assms
  by (auto simp: oauth2_credentials_def split_beta load_token_new_io
      dest!: refresh_or_create_saved split: sum.splits if_splits)

lemma get_credentials_try_saved:
  assumes "Refresh (Inr c) \<in> set (new_io w (snd (get_credentials_try env scopes w))) \<or>
           RunLocalServer (Inr c) \<in> set (new_io w (snd (get_credentials_try env scopes w)))"
    and "fst (get_credentials_try env scopes w) = Inr c'"
  shows "c' = c \<and>
         files (snd (get_credentials_try env scopes w)) =
           (files w)(google_token_path (settings env) \<mapsto> to_json c)"
  using assms
  by (auto simp: get_credentials_try_def split_beta service_account_credentials_new_io
      dest!: oauth2_credentials_saved split: option.splits if_splits bool.splits)

lemma get_credentials_saved:
  assumes "Refresh (Inr c) \<in> set (new_io w (snd (get_credentials env scopes w))) \<or>
           RunLocalServer (Inr c) \<in> set (new_io w (snd (get_credentials env scopes w)))"
    and "fst (get_credentials env scopes w) = Inr c'"
  shows "c' = c \<and>
         files (snd (get_credentials env scopes w)) =
           (files w)(google_token_path (settings env) \<mapsto> to_json c)"
  using assms
  by (auto simp: get_credentials_def split_beta
      dest!: get_credentials_try_saved split: sum.splits)

lemma get_service_saved:
  assumes "Refresh (Inr c) \<in> set (new_io w (snd (get_service env api_name api_version scopes w))) \<or>
           RunLocalServer (Inr c) \<in>
             set (new_io w (snd (get_service env api_name api_version scopes w)))"
    and "fst (get_service env api_name api_version scopes w) = Inr h"
  shows "files (snd (get_service env api_name api_version scopes w)) =
           (files w)(google_token_path (settings env) \<mapsto> to_json c)"
proof (cases "services w (service_key env api_name api_version
                (resolve_scopes env api_name scopes))")
  case None
  from assms show ?thesis
    unfolding get_service_miss [OF None]
    by (auto simp: service_error_def Let_def split_beta
        dest!: get_credentials_saved split: sum.splits)
next
  case (Some h')
  from assms show ?thesis
    unfolding get_service_hit [OF Some] by simp
qed

subsection \<open>A token file that does not load\<close>

lemma refresh_or_create_no_load:
  "\<forall>x \<in> set (new_io w (snd (refresh_or_create env scopes cr w))). \<not> is_TokenLoad x"
  by (cases cr)
     (auto simp: refresh_or_create_def Let_def split_beta save_token_new_io oauth_flow_new_io
      split: option.splits sum.splits if_splits)

lemma refresh_or_create_none:
  "Log INFO ''Creating new credentials via OAuth flow''
     \<in> set (new_io w (snd (refresh_or_create env scopes None w))) \<and>
   (\<forall>x \<in> set (new_io w (snd (refresh_or_create env scopes None w))). \<not> is_Refresh x)"
  by (auto simp: refresh_or_create_def Let_def split_beta save_token_new_io oauth_flow_new_io
      split: option.splits sum.splits if_splits)

lemma refresh_or_create_no_token_load [simp]:
  "TokenLoad p r \<notin> set (new_io w (snd (refresh_or_create env scopes cr w)))"
  using refresh_or_create_no_load [of w env scopes cr] by auto

lemma oauth2_credentials_load_failed:
  assumes "TokenLoad p (Inl e) \<in> set (new_io w (snd (oauth2_credentials env scopes w)))"
  shows "Log WARNING (''Failed to load existing credentials: '' @ str_exn e)
           \<in> set (new_io w (snd (oauth2_credentials env scopes w))) \<and>
         Log INFO ''Creating new credentials via OAuth flow''
           \<in> set (new_io w (snd (oauth2_credentials env scopes w))) \<and>
         (\<forall>x \<in> set (new_io w (snd (oauth2_credentials env scopes w))). \<not> is_Refresh x)"
  using assms
  by (auto simp: oauth2_credentials_def split_beta load_token_new_io load_token_fst
        refresh_or_create_none
      split: sum.splits if_splits)

lemma get_credentials_try_load_failed:
  assumes "TokenLoad p (Inl e) \<in> set (new_io w (snd (get_credentials_try env scopes w)))"
  shows "Log WARNING (''Failed to load existing credentials: '' @ str_exn e)
           \<in> set (new_io w (snd (get_credentials_try env scopes w))) \<and>
         Log INFO ''Creating new credentials via OAuth flow''
           \<in> set (new_io w (snd (get_credentials_try env scopes w))) \<and>
         (\<forall>x \<in> set (new_io w (snd (get_credentials_try env scopes w))). \<not> is_Refresh x)"
  using assms
  by (auto simp: get_credentials_try_def split_beta service_account_credentials_new_io
      dest!: oauth2_credentials_load_failed split: option.splits if_splits bool.splits)

lemma get_credentials_load_failed:
  assumes "TokenLoad p (Inl e) \<in> set (new_io w (snd (get_credentials env scopes w)))"
  shows "Log WARNING (''Failed to load existing credentials: '' @ str_exn e)
           \<in> set (new_io w (snd (get_credentials env scopes w))) \<and>
         Log INFO ''Creating new credentials via OAuth flow''
           \<in> set (new_io w (snd (get_credentials env scopes w))) \<and>
         (\<forall>x \<in> set (new_io w (snd (get_credentials env scopes w))). \<not> is_Refresh x)"
  using assms
  by (auto simp: get_credentials_def split_beta
      dest!: get_credentials_try_load_failed split: sum.splits)

lemma get_service_load_failed:
  assumes "TokenLoad p (Inl e) \<in>
             set (new_io w (snd (get_service env api_name api_version scopes w)))"
  shows "Log WARNING (''Failed to load existing credentials: '' @ str_exn e)
           \<in> set (new_io w (snd (get_service env api_name api_version scopes w))) \<and>
         Log INFO ''Creating new credentials via OAuth flow''
           \<in> set (new_io w (snd (get_service env api_name api_version scopes w))) \<and>
         (\<forall>x \<in> set (new_io w (snd (get_service env api_name api_version scopes w))).
            \<not> is_Refresh x)"
proof (cases "services w (service_key env api_name api_version
                (resolve_scopes env api_name scopes))")
  case None
  from assms show ?thesis
    unfolding get_service_miss [OF None]
    by (auto simp: service_error_def Let_def split_beta
        dest!: get_credentials_load_failed split: sum.splits)
next
  case (Some h')
  from assms show ?thesis
    unfolding get_service_hit [OF Some] by simp
qed

subsection \<open>Resolution after the cache is cleared\<close>






subsection \<open>validate_credentials\<close>

lemma validate_credentials_result:
  "fst (validate_credentials env w) =
     (case get_service env ''gmail'' ''v1'' None w of
        (Inl e, w1) \<Rightarrow> False
      | (Inr service, w1) \<Rightarrow>
          (case fst (getProfile env (remote w1) service) of
             Inl e \<Rightarrow> False
           | Inr profile \<Rightarrow> True)) \<and>
   (\<not> fst (validate_credentials env w) \<longrightarrow>
      (\<exists>m. last (io (snd (validate_credentials env w))) =
              Log ERROR (''Error in Credential validation: '' @ m)))"
  by (auto simp: validate_credentials_def get_google_service_def split_beta split: sum.splits)

subsection \<open>The order of the credential sources\<close>

lemma load_token_remote:
  "remote (snd (load_token env scopes w)) =
     (if files w (google_token_path (settings env)) = None then remote w
      else snd (from_authorized_user_file env (remote w)
                  (contents w (google_token_path (settings env))) scopes))"
  by (simp add: load_token_def Let_def split_beta split: sum.splits bool.splits)

lemma oauth_flow_remote:
  "remote (snd (oauth_flow env scopes w)) =
     (if files w (google_credentials_path (settings env)) = None then remote w
      else (case from_client_secrets_file env (remote w)
                   (contents w (google_credentials_path (settings env))) scopes of
              (Inl e, r) \<Rightarrow> r
            | (Inr fl, r) \<Rightarrow> snd (run_local_server env r fl)))"
  by (simp add: oauth_flow_def Let_def split_beta split: sum.splits bool.splits)

lemma refresh_or_create_unusable:
  assumes "\<forall>c. cr = Some c \<longrightarrow> \<not> valid c \<and> \<not> (expired c \<and> truthy (refresh_token c))"
  shows "refresh_or_create env scopes cr w =
           (case oauth_flow env scopes w of
              (Inl e, w1) \<Rightarrow> (Inl e, w1)
            | (Inr c', w1) \<Rightarrow> save_token env c' w1)"
  using assms by (cases cr) (auto simp: refresh_or_create_def)

lemma oauth2_credentials_valid_token:
  assumes "files w (google_token_path (settings env)) = Some text"
    and "from_authorized_user_file env (remote w) text scopes = (Inr c, r)"
    and "valid c"
  shows "fst (oauth2_credentials env scopes w) = Inr c \<and>
         new_io w (snd (oauth2_credentials env scopes w)) =
           [Log INFO ''Using OAuth2 authentication'',
            PathExists (google_token_path (settings env)) True,
            TokenLoad (google_token_path (settings env)) (Inr c),
            Log DEBUG ''Loaded existing credentials from token file''] \<and>
         files (snd (oauth2_credentials env scopes w)) = files w"
  using assms
  by (simp add: oauth2_credentials_def split_beta load_token_new_io load_token_fst
      contents_def refresh_or_create_def)

lemma oauth2_credentials_refreshable_token:
  assumes "files w (google_token_path (settings env)) = Some text"
    and "from_authorized_user_file env (remote w) text scopes = (Inr c, r)"
    and "\<not> valid c" and "expired c" and "truthy (refresh_token c)"
    and "refresh env r c = (res, r2)"
  shows "fst (oauth2_credentials env scopes w) =
           (case res of
              Inl e \<Rightarrow> Inl e
            | Inr c' \<Rightarrow>
                (case open_w env r2 (google_token_path (settings env)) of
                   None \<Rightarrow> Inr c' | Some e \<Rightarrow> Inl e)) \<and>
         new_io w (snd (oauth2_credentials env scopes w)) =
           [Log INFO ''Using OAuth2 authentication'',
            PathExists (google_token_path (settings env)) True,
            TokenLoad (google_token_path (settings env)) (Inr c),
            Log DEBUG ''Loaded existing credentials from token file'',
            Log INFO ''Refreshing expired credentials'',
            Refresh res] @
           (case res of
              Inl e \<Rightarrow> []
            | Inr c' \<Rightarrow>
                (case open_w env r2 (google_token_path (settings env)) of
                   None \<Rightarrow>
                     [FileWrite (google_token_path (settings env)) (to_json c') None,
                      Log INFO ''Credentials saved for future use'']
                 | Some e \<Rightarrow>
                     [FileWrite (google_token_path (settings env)) (to_json c') (Some e)]))"
  using assms
  by (simp add: oauth2_credentials_def split_beta load_token_new_io load_token_fst
      load_token_remote contents_def refresh_or_create_def Let_def save_token_new_io
      save_token_fst
      split: sum.splits option.splits)

text \<open>No token file, a token file that does not load, or a token that is neither valid
  nor refreshable; \<open>r1\<close> is the outside state after the attempt to load.\<close>

lemma no_usable_token_load:
  assumes "(files w (google_token_path (settings env)) = None \<and> r1 = remote w) \<or>
           (\<exists>text. files w (google_token_path (settings env)) = Some text \<and>
              snd (from_authorized_user_file env (remote w) text scopes) = r1 \<and>
              (case fst (from_authorized_user_file env (remote w) text scopes) of
                 Inl e \<Rightarrow> True
               | Inr c \<Rightarrow> \<not> valid c \<and> \<not> (expired c \<and> truthy (refresh_token c))))"
    and "files w0 = files w" and "remote w0 = remote w"
  shows "remote (snd (load_token env scopes w0)) = r1 \<and>
         (\<forall>c. fst (load_token env scopes w0) = Some c \<longrightarrow>
            \<not> valid c \<and> \<not> (expired c \<and> truthy (refresh_token c))) \<and>
         filter (\<lambda>x. \<not> is_Log x \<and> \<not> is_PathExists x \<and> \<not> is_TokenLoad x)
           (new_io w0 (snd (load_token env scopes w0))) = []"
proof -
  from assms(1) show ?thesis
  proof (elim disjE conjE exE)
    assume "files w (google_token_path (settings env)) = None" and "r1 = remote w"
    with assms(2,3) show ?thesis
      by (simp add: load_token_remote load_token_fst load_token_new_io)
  next
    fix t
    assume "files w (google_token_path (settings env)) = Some t"
      and "snd (from_authorized_user_file env (remote w) t scopes) = r1"
      and "case fst (from_authorized_user_file env (remote w) t scopes) of
             Inl e \<Rightarrow> True
           | Inr c \<Rightarrow> \<not> valid c \<and> \<not> (expired c \<and> truthy (refresh_token c))"
    with assms(2,3) show ?thesis
      by (auto simp: load_token_remote load_token_fst load_token_new_io contents_def
          split: sum.splits)
  qed
qed

lemma oauth2_credentials_consent_flow:
  assumes "(files w (google_token_path (settings env)) = None \<and> r1 = remote w) \<or>
           (\<exists>text. files w (google_token_path (settings env)) = Some text \<and>
              snd (from_authorized_user_file env (remote w) text scopes) = r1 \<and>
              (case fst (from_authorized_user_file env (remote w) text scopes) of
                 Inl e \<Rightarrow> True
               | Inr c \<Rightarrow> \<not> valid c \<and> \<not> (expired c \<and> truthy (refresh_token c))))"
    and "files w (google_credentials_path (settings env)) = Some secrets"
    and "from_client_secrets_file env r1 secrets scopes = (Inr fl, r2)"
    and "run_local_server env r2 fl = (res, r3)"
  shows "fst (oauth2_credentials env scopes w) =
           (case res of
              Inl e \<Rightarrow> Inl e
            | Inr c' \<Rightarrow>
                (case open_w env r3 (google_token_path (settings env)) of
                   None \<Rightarrow> Inr c' | Some e \<Rightarrow> Inl e)) \<and>
         Log INFO ''Creating new credentials via OAuth flow''
           \<in> set (new_io w (snd (oauth2_credentials env scopes w))) \<and>
         filter (\<lambda>x. \<not> is_Log x \<and> \<not> is_PathExists x \<and> \<not> is_TokenLoad x)
           (new_io w (snd (oauth2_credentials env scopes w))) =
           FlowLoad (google_credentials_path (settings env)) (Inr fl) # RunLocalServer res #
           (case res of
              Inl e \<Rightarrow> []
            | Inr c' \<Rightarrow>
                [FileWrite (google_token_path (settings env)) (to_json c')
                   (open_w env r3 (google_token_path (settings env)))])"
proof -
  let ?w1 = "logger_log INFO ''Using OAuth2 authentication'' w"
  let ?w2 = "snd (load_token env scopes ?w1)"
  from no_usable_token_load [OF assms(1), of ?w1] have
    r: "remote ?w2 = r1" and
    u: "\<forall>c. fst (load_token env scopes ?w1) = Some c \<longrightarrow>
          \<not> valid c \<and> \<not> (expired c \<and> truthy (refresh_token c))" and
    l: "filter (\<lambda>x. \<not> is_Log x \<and> \<not> is_PathExists x \<and> \<not> is_TokenLoad x)
          (new_io ?w1 ?w2) = []"
    by simp_all
  note roc = refresh_or_create_unusable [OF u, of env scopes ?w2]
  have c: "contents ?w2 (google_credentials_path (settings env)) = secrets"
    using assms(2) by (simp add: contents_def)
  show ?thesis
    using assms(2-4)
    by (simp add: oauth2_credentials_def split_beta roc oauth_flow_new_io oauth_flow_result
        oauth_flow_remote save_token_new_io save_token_fst r l c
        split: sum.splits option.splits)
qed

lemma oauth2_credentials_no_client_secrets:
  assumes "(files w (google_token_path (settings env)) = None \<and> r1 = remote w) \<or>
           (\<exists>text. files w (google_token_path (settings env)) = Some text \<and>
              snd (from_authorized_user_file env (remote w) text scopes) = r1 \<and>
              (case fst (from_authorized_user_file env (remote w) text scopes) of
                 Inl e \<Rightarrow> True
               | Inr c \<Rightarrow> \<not> valid c \<and> \<not> (expired c \<and> truthy (refresh_token c))))"
    and "files w (google_credentials_path (settings env)) = None"
  shows "fst (oauth2_credentials env scopes w) =
           Inl (GoogleAuthError
                  (''Credentials file not found: '' @ google_credentials_path (settings env))) \<and>
         Log INFO ''Creating new credentials via OAuth flow''
           \<in> set (new_io w (snd (oauth2_credentials env scopes w))) \<and>
         filter (\<lambda>x. \<not> is_Log x \<and> \<not> is_PathExists x \<and> \<not> is_TokenLoad x)
           (new_io w (snd (oauth2_credentials env scopes w))) = []"
proof -
  let ?w1 = "logger_log INFO ''Using OAuth2 authentication'' w"
  let ?w2 = "snd (load_token env scopes ?w1)"
  from no_usable_token_load [OF assms(1), of ?w1] have
    u: "\<forall>c. fst (load_token env scopes ?w1) = Some c \<longrightarrow>
          \<not> valid c \<and> \<not> (expired c \<and> truthy (refresh_token c))" and
    l: "filter (\<lambda>x. \<not> is_Log x \<and> \<not> is_PathExists x \<and> \<not> is_TokenLoad x)
          (new_io ?w1 ?w2) = []"
    by simp_all
  note roc = refresh_or_create_unusable [OF u, of env scopes ?w2]
  show ?thesis
    using assms(2)
    by (simp add: oauth2_credentials_def split_beta roc oauth_flow_new_io oauth_flow_result l)
qed

lemma get_credentials_try_oauth2:
  assumes "\<not> service_account_configured env w"
  shows "\<exists>w'. get_credentials_try env scopes w = oauth2_credentials env scopes w' \<and>
              files w' = files w \<and> remote w' = remote w \<and>
              length (io w) \<le> length (io w') \<and>
              (\<forall>x \<in> set (new_io w w'). is_PathExists x)"
proof (cases "google_service_account_path (settings env)")
  case None
  then have "get_credentials_try env scopes w = oauth2_credentials env scopes w"
    by (simp add: get_credentials_try_def)
  then show ?thesis by (intro exI [of _ w]) simp
next
  case (Some path)
  show ?thesis
  proof (cases "path = []")
    case True
    with Some have "get_credentials_try env scopes w = oauth2_credentials env scopes w"
      by (simp add: get_credentials_try_def)
    then show ?thesis by (intro exI [of _ w]) simp
  next
    case False
    with Some assms have "files w path = None"
      by (simp add: service_account_configured_def)
    with Some False have "get_credentials_try env scopes w =
        oauth2_credentials env scopes (snd (path_exists path w))"
      by (simp add: get_credentials_try_def split_beta)
    then show ?thesis by (intro exI [of _ "snd (path_exists path w)"]) simp
  qed
qed

lemma get_credentials_split:
  "new_io w (snd (get_credentials env scopes w)) =
     new_io w (snd (get_credentials_try env scopes w)) @
     (case fst (get_credentials_try env scopes w) of
        Inl e \<Rightarrow> [Log ERROR (''Error in Google authentication: '' @ str_exn e)]
      | Inr c \<Rightarrow> [])"
  by (simp add: get_credentials_def split_beta split: sum.splits)

lemma get_credentials_result:
  "fst (get_credentials env scopes w) =
     (case fst (get_credentials_try env scopes w) of
        Inl e \<Rightarrow> Inl (GoogleAuthError (''Failed to authenticate with Google: '' @ str_exn e))
      | Inr c \<Rightarrow> Inr c)"
  by (simp add: get_credentials_def split_beta split: sum.splits)

lemma only_path_exists:
  assumes "\<forall>x \<in> set xs. is_PathExists x"
  shows "filter (\<lambda>x. \<not> is_Log x \<and> \<not> is_PathExists x) xs = []"
    and "filter (\<lambda>x. \<not> is_Log x \<and> \<not> is_PathExists x \<and> \<not> is_TokenLoad x) xs = []"
    and "Log l m \<notin> set xs"
  using assms by (auto simp: filter_empty_conv)

lemmas run_simps = run_defs Let_def new_io_def

section \<open>The claims\<close>

text \<open>
  C1, as stated: for an api name outside gmail, calendar and drive, \<open>get_service\<close>
  without scopes fails. It does not: with a valid token on disk the call for
  \<open>sheets\<close> returns a service.
\<close>

theorem unknown_api_proceeds_counterexample:
  "''sheets'' \<notin> {''gmail'', ''calendar'', ''drive''} \<and>
   fst (get_service (stub_env default_settings) ''sheets'' ''v4'' None
          (stub_world [''token.json'' \<mapsto> ''valid''])) = Inr 0"
  by (simp add: run_simps)

text \<open>
  C1, amended: for an api name outside gmail, calendar and drive,
  \<open>get_google_scopes\<close> gives the empty list, and \<open>get_service\<close> without scopes
  behaves exactly as \<open>get_service\<close> with the empty scope list.
\<close>

theorem unknown_api_defaults_to_no_scopes:
  "api_name \<notin> {''gmail'', ''calendar'', ''drive''} \<Longrightarrow>
   get_google_scopes (settings env) api_name = [] \<and>
   get_service env api_name api_version None w = get_service env api_name api_version (Some []) w"
  by (rule get_service_unknown)

theorem unknown_api_defaults_to_no_scopes_witness:
  "''sheets'' \<notin> {''gmail'', ''calendar'', ''drive''} \<and>
   get_google_scopes (settings (stub_env default_settings)) ''sheets'' = [] \<and>
   get_service (stub_env default_settings) ''sheets'' ''v4'' None
       (stub_world [''token.json'' \<mapsto> ''valid'']) =
     get_service (stub_env default_settings) ''sheets'' ''v4'' (Some [])
       (stub_world [''token.json'' \<mapsto> ''valid''])"
  using unknown_api_defaults_to_no_scopes
    [of "''sheets''" "stub_env default_settings" "''v4''" "stub_world [''token.json'' \<mapsto> ''valid'']"]
  by simp

text \<open>
  C2, as stated: two scope lists that are equal as sets hit the same cache entry. They
  need not: with a hash that depends on the order, as the hash of a tuple does, the second
  call with the two scopes swapped builds a second service.
\<close>

theorem cache_key_order_counterexample:
  "set [''https://www.googleapis.com/auth/gmail.readonly'',
        ''https://www.googleapis.com/auth/gmail.send''] =
   set [''https://www.googleapis.com/auth/gmail.send'',
        ''https://www.googleapis.com/auth/gmail.readonly''] \<and>
   fst (get_service (stub_env default_settings) ''gmail'' ''v1''
          (Some [''https://www.googleapis.com/auth/gmail.readonly'',
                 ''https://www.googleapis.com/auth/gmail.send''])
          (stub_world [''token.json'' \<mapsto> ''valid''])) = Inr 0 \<and>
   fst (get_service (stub_env default_settings) ''gmail'' ''v1''
          (Some [''https://www.googleapis.com/auth/gmail.send'',
                 ''https://www.googleapis.com/auth/gmail.readonly''])
          (snd (get_service (stub_env default_settings) ''gmail'' ''v1''
                  (Some [''https://www.googleapis.com/auth/gmail.readonly'',
                         ''https://www.googleapis.com/auth/gmail.send''])
                  (stub_world [''token.json'' \<mapsto> ''valid''])))) = Inr 1"
  by (simp add: run_simps stub_hash_def str_int_def str_nat.simps insert_commute)

text \<open>
  C2, amended: the cache key holds the scopes only through the hash of their tuple. After
  a successful call, a call with the same api name and version and a scope list of the
  same hash (the same scopes in the same order, in particular) returns the cached handle;
  it adds one log record and no storage or network event, and leaves files, outside
  state and cache as they were.
\<close>

theorem cache_key_is_hash_of_scope_tuple:
  assumes "hash env scopes1 = hash env scopes2"
    and "get_service env api_name api_version (Some scopes1) w = (Inr h, w1)"
  shows "fst (get_service env api_name api_version (Some scopes2) w1) = Inr h \<and>
         new_io w1 (snd (get_service env api_name api_version (Some scopes2) w1)) =
           [Log DEBUG (''Returning cached service for '' @ api_name)] \<and>
         files (snd (get_service env api_name api_version (Some scopes2) w1)) = files w1 \<and>
         remote (snd (get_service env api_name api_version (Some scopes2) w1)) = remote w1 \<and>
         services (snd (get_service env api_name api_version (Some scopes2) w1)) = services w1"
  by (simp add: get_service_same_hash [OF assms])

theorem cache_key_is_hash_of_scope_tuple_witness:
  "hash (stub_env default_settings) [''a'', ''bb''] =
     hash (stub_env default_settings) [''a'', ''bb''] \<and>
   get_service (stub_env default_settings) ''gmail'' ''v1'' (Some [''a'', ''bb''])
       (stub_world [''token.json'' \<mapsto> ''valid'']) =
     (Inr 0, snd (get_service (stub_env default_settings) ''gmail'' ''v1'' (Some [''a'', ''bb''])
                    (stub_world [''token.json'' \<mapsto> ''valid'']))) \<and>
   fst (get_service (stub_env default_settings) ''gmail'' ''v1'' (Some [''a'', ''bb''])
          (snd (get_service (stub_env default_settings) ''gmail'' ''v1'' (Some [''a'', ''bb''])
                  (stub_world [''token.json'' \<mapsto> ''valid''])))) = Inr 0"
proof -
  have run: "get_service (stub_env default_settings) ''gmail'' ''v1'' (Some [''a'', ''bb''])
       (stub_world [''token.json'' \<mapsto> ''valid'']) =
     (Inr 0, snd (get_service (stub_env default_settings) ''gmail'' ''v1'' (Some [''a'', ''bb''])
                    (stub_world [''token.json'' \<mapsto> ''valid''])))"
    by (rule prod_eqI) (simp_all add: run_simps)
  from cache_key_is_hash_of_scope_tuple [OF refl run] run show ?thesis
    by simp
qed

text \<open>
  C3, as stated: a refresh that fails falls through to the interactive consent flow. It
  does not: with a revoked refresh token in the token file, and a client-secrets file
  present, \<open>get_service\<close> raises the refresh failure and never runs the flow.
\<close>

theorem refresh_failure_counterexample:
  "fst (get_service (stub_env default_settings) ''gmail'' ''v1'' None
          (stub_world [''token.json'' \<mapsto> ''revoked'', ''credentials.json'' \<mapsto> ''client''])) =
     Inl (GoogleAuthError
       ''Failed to create gmail service: Failed to authenticate with Google: invalid_grant'') \<and>
   filter is_Refresh
     (io (snd (get_service (stub_env default_settings) ''gmail'' ''v1'' None
        (stub_world [''token.json'' \<mapsto> ''revoked'', ''credentials.json'' \<mapsto> ''client''])))) =
     [Refresh (Inl (Exception ''invalid_grant''))] \<and>
   filter is_RunLocalServer
     (io (snd (get_service (stub_env default_settings) ''gmail'' ''v1'' None
        (stub_world [''token.json'' \<mapsto> ''revoked'', ''credentials.json'' \<mapsto> ''client''])))) = []"
  by (simp add: run_simps)

text \<open>
  C3, amended: when the refresh of the stored token fails with \<open>e\<close>,
  \<open>get_service\<close> raises a \<open>GoogleAuthError\<close> that carries the message of
  \<open>e\<close>; the consent flow is not started, nothing is written, and files and cache
  are as before.
\<close>

theorem refresh_failure_is_raised:
  assumes "Refresh (Inl e) \<in> set (new_io w (snd (get_service env api_name api_version scopes w)))"
  shows "fst (get_service env api_name api_version scopes w) =
           Inl (GoogleAuthError (''Failed to create '' @ api_name @
             '' service: Failed to authenticate with Google: '' @ str_exn e)) \<and>
         (\<forall>x \<in> set (new_io w (snd (get_service env api_name api_version scopes w))).
            \<not> is_RunLocalServer x \<and> \<not> is_FlowLoad x \<and> \<not> is_FileWrite x) \<and>
         files (snd (get_service env api_name api_version scopes w)) = files w \<and>
         services (snd (get_service env api_name api_version scopes w)) = services w"
  by (rule get_service_refresh_failed [OF assms])

theorem refresh_failure_is_raised_witness:
  "Refresh (Inl (Exception ''invalid_grant'')) \<in>
     set (new_io (stub_world [''token.json'' \<mapsto> ''revoked'', ''credentials.json'' \<mapsto> ''client''])
       (snd (get_service (stub_env default_settings) ''gmail'' ''v1'' None
          (stub_world [''token.json'' \<mapsto> ''revoked'', ''credentials.json'' \<mapsto> ''client''])))) \<and>
   fst (get_service (stub_env default_settings) ''gmail'' ''v1'' None
          (stub_world [''token.json'' \<mapsto> ''revoked'', ''credentials.json'' \<mapsto> ''client''])) =
     Inl (GoogleAuthError
       ''Failed to create gmail service: Failed to authenticate with Google: invalid_grant'') \<and>
   files (snd (get_service (stub_env default_settings) ''gmail'' ''v1'' None
          (stub_world [''token.json'' \<mapsto> ''revoked'', ''credentials.json'' \<mapsto> ''client'']))) =
     [''token.json'' \<mapsto> ''revoked'', ''credentials.json'' \<mapsto> ''client'']"
proof -
  have h: "Refresh (Inl (Exception ''invalid_grant'')) \<in>
     set (new_io (stub_world [''token.json'' \<mapsto> ''revoked'', ''credentials.json'' \<mapsto> ''client''])
       (snd (get_service (stub_env default_settings) ''gmail'' ''v1'' None
          (stub_world [''token.json'' \<mapsto> ''revoked'', ''credentials.json'' \<mapsto> ''client'']))))"
    by (simp add: run_simps)
  from refresh_failure_is_raised [OF h] h show ?thesis
    by (simp add: stub_world_def)
qed



text \<open>
  C6: when \<open>get_service\<close> fails, what it raises is a \<open>GoogleAuthError\<close>, and
  the service cache is the one from before the call.
\<close>

theorem failure_leaves_cache_unchanged:
  assumes "fst (get_service env api_name api_version scopes w) = Inl x"
  shows "(\<exists>m. x = GoogleAuthError m) \<and>
         services (snd (get_service env api_name api_version scopes w)) = services w"
  by (rule get_service_error [OF assms])

theorem failure_leaves_cache_unchanged_witness:
  "fst (get_service (stub_env default_settings) ''gmail'' ''v1'' None (stub_world Map.empty)) =
     Inl (GoogleAuthError (''Failed to create gmail service: Failed to authenticate with Google: ''
            @ ''Credentials file not found: credentials.json'')) \<and>
   services (snd (get_service (stub_env default_settings) ''gmail'' ''v1'' None
                    (stub_world Map.empty))) = Map.empty"
proof -
  have h: "fst (get_service (stub_env default_settings) ''gmail'' ''v1'' None
                 (stub_world Map.empty)) =
     Inl (GoogleAuthError (''Failed to create gmail service: Failed to authenticate with Google: ''
            @ ''Credentials file not found: credentials.json''))"
    by (simp add: run_simps)
  from failure_leaves_cache_unchanged [OF h] h show ?thesis
    by (simp add: stub_world_def)
qed



text \<open>
  C8: when a call of \<open>get_service\<close> that returns a handle has refreshed the token
  or completed the consent flow, the token file in the world it returns holds exactly the
  serialised new credentials, whatever it held before; every other file is as before.
\<close>

theorem fresh_token_is_persisted:
  assumes "Refresh (Inr c) \<in> set (new_io w (snd (get_service env api_name api_version scopes w))) \<or>
           RunLocalServer (Inr c) \<in>
             set (new_io w (snd (get_service env api_name api_version scopes w)))"
    and "fst (get_service env api_name api_version scopes w) = Inr h"
  shows "files (snd (get_service env api_name api_version scopes w)) =
           (files w)(google_token_path (settings env) \<mapsto> to_json c)"
  by (rule get_service_saved [OF assms])

theorem fresh_token_is_persisted_witness:
  "(Refresh (Inr (usable ''refreshed'')) \<in>
      set (new_io (stub_world [''token.json'' \<mapsto> ''expired''])
        (snd (get_service (stub_env default_settings) ''gmail'' ''v1'' None
           (stub_world [''token.json'' \<mapsto> ''expired''])))) \<or>
    RunLocalServer (Inr (usable ''refreshed'')) \<in>
      set (new_io (stub_world [''token.json'' \<mapsto> ''expired''])
        (snd (get_service (stub_env default_settings) ''gmail'' ''v1'' None
           (stub_world [''token.json'' \<mapsto> ''expired'']))))) \<and>
   fst (get_service (stub_env default_settings) ''gmail'' ''v1'' None
          (stub_world [''token.json'' \<mapsto> ''expired''])) = Inr 1 \<and>
   files (snd (get_service (stub_env default_settings) ''gmail'' ''v1'' None
          (stub_world [''token.json'' \<mapsto> ''expired'']))) ''token.json'' = Some ''refreshed''"
proof -
  have h1: "Refresh (Inr (usable ''refreshed'')) \<in>
      set (new_io (stub_world [''token.json'' \<mapsto> ''expired''])
        (snd (get_service (stub_env default_settings) ''gmail'' ''v1'' None
           (stub_world [''token.json'' \<mapsto> ''expired'']))))"
    by (simp add: run_simps)
  have h2: "fst (get_service (stub_env default_settings) ''gmail'' ''v1'' None
          (stub_world [''token.json'' \<mapsto> ''expired''])) = Inr 1"
    by (simp add: run_simps)
  from fresh_token_is_persisted [OF disjI1 [OF h1] h2] h1 h2 show ?thesis
    by (simp add: stub_env_def default_settings_def usable_def)
qed

text \<open>
  C9: \<open>validate_credentials\<close> always returns a truth value. It is \<open>True\<close> exactly
  when \<open>get_service\<close> for gmail v1 with the default scopes returns a service and the
  profile request on that service succeeds; when it is \<open>False\<close>, the last thing it
  did was to log the failure as an error.
\<close>

theorem validate_credentials_total:
  "fst (validate_credentials env w) =
     (case get_service env ''gmail'' ''v1'' None w of
        (Inl e, w1) \<Rightarrow> False
      | (Inr service, w1) \<Rightarrow>
          (case fst (getProfile env (remote w1) service) of
             Inl e \<Rightarrow> False
           | Inr profile \<Rightarrow> True)) \<and>
   (\<not> fst (validate_credentials env w) \<longrightarrow>
      (\<exists>m. last (io (snd (validate_credentials env w))) =
              Log ERROR (''Error in Credential validation: '' @ m)))"
  by (rule validate_credentials_result)

theorem validate_credentials_total_witness:
  "\<not> fst (validate_credentials (stub_env default_settings) (stub_world Map.empty)) \<and>
   last (io (snd (validate_credentials (stub_env default_settings) (stub_world Map.empty)))) =
     Log ERROR (''Error in Credential validation: Failed to create gmail service: '' @
       ''Failed to authenticate with Google: Credentials file not found: credentials.json'') \<and>
   fst (validate_credentials (stub_env default_settings)
          (stub_world [''token.json'' \<mapsto> ''valid'']))"
proof -
  have no: "\<not> fst (validate_credentials (stub_env default_settings) (stub_world Map.empty))"
    by (simp add: validate_credentials_def get_google_service_def run_simps)
  have yes: "fst (validate_credentials (stub_env default_settings)
          (stub_world [''token.json'' \<mapsto> ''valid'']))"
    using validate_credentials_total
      [of "stub_env default_settings" "stub_world [''token.json'' \<mapsto> ''valid'']"]
    by (simp add: run_simps)
  have l: "last (io (snd (validate_credentials (stub_env default_settings)
                   (stub_world Map.empty)))) =
     Log ERROR (''Error in Credential validation: Failed to create gmail service: '' @
       ''Failed to authenticate with Google: Credentials file not found: credentials.json'')"
    by (simp add: validate_credentials_def get_google_service_def run_simps)
  from validate_credentials_total [of "stub_env default_settings" "stub_world Map.empty"]
    no yes l
  show ?thesis by simp
qed

text \<open>
  C10: when the token file is there but does not load, \<open>get_service\<close> logs the
  failure as a warning and goes on as with no token: it enters the branch that creates
  new credentials through the consent flow, and attempts no refresh.
\<close>

theorem unreadable_token_is_no_token:
  assumes "TokenLoad p (Inl e) \<in>
             set (new_io w (snd (get_service env api_name api_version scopes w)))"
  shows "Log WARNING (''Failed to load existing credentials: '' @ str_exn e)
           \<in> set (new_io w (snd (get_service env api_name api_version scopes w))) \<and>
         Log INFO ''Creating new credentials via OAuth flow''
           \<in> set (new_io w (snd (get_service env api_name api_version scopes w))) \<and>
         (\<forall>x \<in> set (new_io w (snd (get_service env api_name api_version scopes w))).
            \<not> is_Refresh x)"
  by (rule get_service_load_failed [OF assms])

theorem unreadable_token_is_no_token_witness:
  "TokenLoad ''token.json'' (Inl (Exception ''not a token'')) \<in>
     set (new_io (stub_world [''token.json'' \<mapsto> ''{'', ''credentials.json'' \<mapsto> ''client''])
       (snd (get_service (stub_env default_settings) ''gmail'' ''v1'' None
          (stub_world [''token.json'' \<mapsto> ''{'', ''credentials.json'' \<mapsto> ''client''])))) \<and>
   Log WARNING ''Failed to load existing credentials: not a token'' \<in>
     set (new_io (stub_world [''token.json'' \<mapsto> ''{'', ''credentials.json'' \<mapsto> ''client''])
       (snd (get_service (stub_env default_settings) ''gmail'' ''v1'' None
          (stub_world [''token.json'' \<mapsto> ''{'', ''credentials.json'' \<mapsto> ''client''])))) \<and>
   Log INFO ''Creating new credentials via OAuth flow'' \<in>
     set (new_io (stub_world [''token.json'' \<mapsto> ''{'', ''credentials.json'' \<mapsto> ''client''])
       (snd (get_service (stub_env default_settings) ''gmail'' ''v1'' None
          (stub_world [''token.json'' \<mapsto> ''{'', ''credentials.json'' \<mapsto> ''client''])))) \<and>
   fst (get_service (stub_env default_settings) ''gmail'' ''v1'' None
          (stub_world [''token.json'' \<mapsto> ''{'', ''credentials.json'' \<mapsto> ''client''])) = Inr 1"
proof -
  have h: "TokenLoad ''token.json'' (Inl (Exception ''not a token'')) \<in>
     set (new_io (stub_world [''token.json'' \<mapsto> ''{'', ''credentials.json'' \<mapsto> ''client''])
       (snd (get_service (stub_env default_settings) ''gmail'' ''v1'' None
          (stub_world [''token.json'' \<mapsto> ''{'', ''credentials.json'' \<mapsto> ''client'']))))"
    by (simp add: run_simps)
  have r: "fst (get_service (stub_env default_settings) ''gmail'' ''v1'' None
          (stub_world [''token.json'' \<mapsto> ''{'', ''credentials.json'' \<mapsto> ''client''])) = Inr 1"
    by (simp add: run_simps)
  from unreadable_token_is_no_token [OF h] h r show ?thesis
    by simp
qed

lemma get_credentials_files:
  "files (snd (get_credentials env scopes w)) = files (snd (get_credentials_try env scopes w))"
  by (simp add: get_credentials_def split_beta split: sum.splits)

lemma get_credentials_service_account:
  assumes "google_service_account_path (settings env) = Some path" and "path \<noteq> []"
    and "files w path = Some key"
    and "from_service_account_file env (remote w) key scopes = (res, r)"
  shows "fst (get_credentials env scopes w) =
           (case res of
              Inl e \<Rightarrow> Inl (GoogleAuthError (''Failed to authenticate with Google: '' @ str_exn e))
            | Inr c \<Rightarrow> Inr c) \<and>
         new_io w (snd (get_credentials env scopes w)) =
           [PathExists path True, Log INFO ''Using service account authentication'',
            ServiceAccountLoad path res] @
           (case res of
              Inl e \<Rightarrow> [Log ERROR (''Error in Google authentication: '' @ str_exn e)]
            | Inr c \<Rightarrow> [])"
proof -
  from assms(1-3) have t: "get_credentials_try env scopes w =
      service_account_credentials env path scopes (snd (path_exists path w))"
    by (simp add: get_credentials_try_def split_beta)
  from assms(3,4) show ?thesis
    unfolding get_credentials_split get_credentials_result t
    by (simp add: service_account_credentials_new_io service_account_credentials_fst
        contents_def split: sum.splits)
qed

lemma get_credentials_valid_token:
  assumes "\<not> service_account_configured env w"
    and "files w (google_token_path (settings env)) = Some text"
    and "from_authorized_user_file env (remote w) text scopes = (Inr c, r)"
    and "valid c"
  shows "fst (get_credentials env scopes w) = Inr c \<and>
         filter (\<lambda>x. \<not> is_Log x \<and> \<not> is_PathExists x)
           (new_io w (snd (get_credentials env scopes w))) =
           [TokenLoad (google_token_path (settings env)) (Inr c)] \<and>
         files (snd (get_credentials env scopes w)) = files w"
proof -
  from get_credentials_try_oauth2 [OF assms(1)] obtain w' where
    t: "get_credentials_try env scopes w = oauth2_credentials env scopes w'" and
    fs: "files w' = files w" and rm: "remote w' = remote w" and
    le: "length (io w) \<le> length (io w')" and
    pre: "\<forall>x \<in> set (new_io w w'). is_PathExists x"
    by blast
  have tr: "new_io w (snd (oauth2_credentials env scopes w')) =
              new_io w w' @ new_io w' (snd (oauth2_credentials env scopes w'))"
    by (rule new_io_step [OF oauth2_credentials_io le])
  from assms(2-4) fs rm
  have "fst (oauth2_credentials env scopes w') = Inr c \<and>
         new_io w' (snd (oauth2_credentials env scopes w')) =
           [Log INFO ''Using OAuth2 authentication'',
            PathExists (google_token_path (settings env)) True,
            TokenLoad (google_token_path (settings env)) (Inr c),
            Log DEBUG ''Loaded existing credentials from token file''] \<and>
         files (snd (oauth2_credentials env scopes w')) = files w'"
    by (intro oauth2_credentials_valid_token [of w' env "text" scopes c r]) simp_all
  then show ?thesis
    unfolding get_credentials_split get_credentials_result get_credentials_files t tr
    by (simp add: only_path_exists [OF pre] fs)
qed

lemma get_credentials_refreshable_token:
  assumes "\<not> service_account_configured env w"
    and "files w (google_token_path (settings env)) = Some text"
    and "from_authorized_user_file env (remote w) text scopes = (Inr c, r)"
    and "\<not> valid c" and "expired c" and "truthy (refresh_token c)"
    and "refresh env r c = (res, r2)"
  shows "fst (get_credentials env scopes w) =
           (case res of
              Inl e \<Rightarrow> Inl (GoogleAuthError (''Failed to authenticate with Google: '' @ str_exn e))
            | Inr c' \<Rightarrow>
                (case open_w env r2 (google_token_path (settings env)) of
                   None \<Rightarrow> Inr c'
                 | Some e \<Rightarrow>
                     Inl (GoogleAuthError
                            (''Failed to authenticate with Google: '' @ str_exn e)))) \<and>
         filter (\<lambda>x. \<not> is_Log x \<and> \<not> is_PathExists x)
           (new_io w (snd (get_credentials env scopes w))) =
           TokenLoad (google_token_path (settings env)) (Inr c) # Refresh res #
           (case res of
              Inl e \<Rightarrow> []
            | Inr c' \<Rightarrow>
                [FileWrite (google_token_path (settings env)) (to_json c')
                   (open_w env r2 (google_token_path (settings env)))]) \<and>
         Log INFO ''Creating new credentials via OAuth flow''
           \<notin> set (new_io w (snd (get_credentials env scopes w)))"
proof -
  from get_credentials_try_oauth2 [OF assms(1)] obtain w' where
    t: "get_credentials_try env scopes w = oauth2_credentials env scopes w'" and
    fs: "files w' = files w" and rm: "remote w' = remote w" and
    le: "length (io w) \<le> length (io w')" and
    pre: "\<forall>x \<in> set (new_io w w'). is_PathExists x"
    by blast
  have tr: "new_io w (snd (oauth2_credentials env scopes w')) =
              new_io w w' @ new_io w' (snd (oauth2_credentials env scopes w'))"
    by (rule new_io_step [OF oauth2_credentials_io le])
  from assms(2-7) fs rm
  have "fst (oauth2_credentials env scopes w') =
           (case res of
              Inl e \<Rightarrow> Inl e
            | Inr c' \<Rightarrow>
                (case open_w env r2 (google_token_path (settings env)) of
                   None \<Rightarrow> Inr c' | Some e \<Rightarrow> Inl e)) \<and>
         new_io w' (snd (oauth2_credentials env scopes w')) =
           [Log INFO ''Using OAuth2 authentication'',
            PathExists (google_token_path (settings env)) True,
            TokenLoad (google_token_path (settings env)) (Inr c),
            Log DEBUG ''Loaded existing credentials from token file'',
            Log INFO ''Refreshing expired credentials'',
            Refresh res] @
           (case res of
              Inl e \<Rightarrow> []
            | Inr c' \<Rightarrow>
                (case open_w env r2 (google_token_path (settings env)) of
                   None \<Rightarrow>
                     [FileWrite (google_token_path (settings env)) (to_json c') None,
                      Log INFO ''Credentials saved for future use'']
                 | Some e \<Rightarrow>
                     [FileWrite (google_token_path (settings env)) (to_json c') (Some e)]))"
    by (intro oauth2_credentials_refreshable_token [of w' env "text" scopes c r]) simp_all
  then show ?thesis
    unfolding get_credentials_split get_credentials_result t tr
    by (auto simp: only_path_exists [OF pre] split: sum.splits option.splits)
qed

lemma get_credentials_consent_flow:
  assumes "\<not> service_account_configured env w"
    and "(files w (google_token_path (settings env)) = None \<and> r1 = remote w) \<or>
           (\<exists>text. files w (google_token_path (settings env)) = Some text \<and>
              snd (from_authorized_user_file env (remote w) text scopes) = r1 \<and>
              (case fst (from_authorized_user_file env (remote w) text scopes) of
                 Inl e \<Rightarrow> True
               | Inr c \<Rightarrow> \<not> valid c \<and> \<not> (expired c \<and> truthy (refresh_token c))))"
    and "files w (google_credentials_path (settings env)) = Some secrets"
    and "from_client_secrets_file env r1 secrets scopes = (Inr fl, r2)"
    and "run_local_server env r2 fl = (res, r3)"
  shows "fst (get_credentials env scopes w) =
           (case res of
              Inl e \<Rightarrow> Inl (GoogleAuthError (''Failed to authenticate with Google: '' @ str_exn e))
            | Inr c' \<Rightarrow>
                (case open_w env r3 (google_token_path (settings env)) of
                   None \<Rightarrow> Inr c'
                 | Some e \<Rightarrow>
                     Inl (GoogleAuthError
                            (''Failed to authenticate with Google: '' @ str_exn e)))) \<and>
         Log INFO ''Creating new credentials via OAuth flow''
           \<in> set (new_io w (snd (get_credentials env scopes w))) \<and>
         filter (\<lambda>x. \<not> is_Log x \<and> \<not> is_PathExists x \<and> \<not> is_TokenLoad x)
           (new_io w (snd (get_credentials env scopes w))) =
           FlowLoad (google_credentials_path (settings env)) (Inr fl) # RunLocalServer res #
           (case res of
              Inl e \<Rightarrow> []
            | Inr c' \<Rightarrow>
                [FileWrite (google_token_path (settings env)) (to_json c')
                   (open_w env r3 (google_token_path (settings env)))])"
proof -
  from get_credentials_try_oauth2 [OF assms(1)] obtain w' where
    t: "get_credentials_try env scopes w = oauth2_credentials env scopes w'" and
    fs: "files w' = files w" and rm: "remote w' = remote w" and
    le: "length (io w) \<le> length (io w')" and
    pre: "\<forall>x \<in> set (new_io w w'). is_PathExists x"
    by blast
  have tr: "new_io w (snd (oauth2_credentials env scopes w')) =
              new_io w w' @ new_io w' (snd (oauth2_credentials env scopes w'))"
    by (rule new_io_step [OF oauth2_credentials_io le])
  from assms(2,3) fs rm
  have h: "(files w' (google_token_path (settings env)) = None \<and> r1 = remote w') \<or>
           (\<exists>text. files w' (google_token_path (settings env)) = Some text \<and>
              snd (from_authorized_user_file env (remote w') text scopes) = r1 \<and>
              (case fst (from_authorized_user_file env (remote w') text scopes) of
                 Inl e \<Rightarrow> True
               | Inr c \<Rightarrow> \<not> valid c \<and> \<not> (expired c \<and> truthy (refresh_token c))))"
    and s: "files w' (google_credentials_path (settings env)) = Some secrets"
    by simp_all
  from oauth2_credentials_consent_flow [OF h s assms(4,5)] show ?thesis
    unfolding get_credentials_split get_credentials_result t tr
    by (auto simp: only_path_exists [OF pre] split: sum.splits option.splits)
qed

lemma get_credentials_no_client_secrets:
  assumes "\<not> service_account_configured env w"
    and "(files w (google_token_path (settings env)) = None \<and> r1 = remote w) \<or>
           (\<exists>text. files w (google_token_path (settings env)) = Some text \<and>
              snd (from_authorized_user_file env (remote w) text scopes) = r1 \<and>
              (case fst (from_authorized_user_file env (remote w) text scopes) of
                 Inl e \<Rightarrow> True
               | Inr c \<Rightarrow> \<not> valid c \<and> \<not> (expired c \<and> truthy (refresh_token c))))"
    and "files w (google_credentials_path (settings env)) = None"
  shows "fst (get_credentials env scopes w) =
           Inl (GoogleAuthError
                  (''Failed to authenticate with Google: Credentials file not found: '' @
                   google_credentials_path (settings env))) \<and>
         Log INFO ''Creating new credentials via OAuth flow''
           \<in> set (new_io w (snd (get_credentials env scopes w))) \<and>
         filter (\<lambda>x. \<not> is_Log x \<and> \<not> is_PathExists x \<and> \<not> is_TokenLoad x)
           (new_io w (snd (get_credentials env scopes w))) = []"
proof -
  from get_credentials_try_oauth2 [OF assms(1)] obtain w' where
    t: "get_credentials_try env scopes w = oauth2_credentials env scopes w'" and
    fs: "files w' = files w" and rm: "remote w' = remote w" and
    le: "length (io w) \<le> length (io w')" and
    pre: "\<forall>x \<in> set (new_io w w'). is_PathExists x"
    by blast
  have tr: "new_io w (snd (oauth2_credentials env scopes w')) =
              new_io w w' @ new_io w' (snd (oauth2_credentials env scopes w'))"
    by (rule new_io_step [OF oauth2_credentials_io le])
  from assms(2,3) fs rm
  have h: "(files w' (google_token_path (settings env)) = None \<and> r1 = remote w') \<or>
           (\<exists>text. files w' (google_token_path (settings env)) = Some text \<and>
              snd (from_authorized_user_file env (remote w') text scopes) = r1 \<and>
              (case fst (from_authorized_user_file env (remote w') text scopes) of
                 Inl e \<Rightarrow> True
               | Inr c \<Rightarrow> \<not> valid c \<and> \<not> (expired c \<and> truthy (refresh_token c))))"
    and s: "files w' (google_credentials_path (settings env)) = None"
    by simp_all
  from oauth2_credentials_no_client_secrets [OF h s] show ?thesis
    unfolding get_credentials_split get_credentials_result t tr
    by (auto simp: only_path_exists [OF pre])
qed

text \<open>
  C4: credential resolution takes the first source that applies, in this order; the
  library calls of one resolution are the events of its trace that are neither log records
  nor \<open>os.path.exists\<close> questions.

  First, with a service-account key configured and its file present, the whole trace is
  the existence check, one log record and the load of the key; the result is what
  \<open>from_service_account_file\<close> gives, its failure raised as a
  \<open>GoogleAuthError\<close>. No token is loaded, nothing is refreshed, no flow is run.

  Second, otherwise, when the token file loads a valid token, that token is the result and
  its load is the only library call.

  Third, otherwise, when the token file loads a token that is not valid, is expired and
  has a refresh token, the library calls are the load, exactly one refresh and, after a
  successful refresh, the write of the new token; the branch of the consent flow is not
  entered.

  Fourth, otherwise (no token file, a token file that does not load, or a token that is
  neither valid nor refreshable), the branch of the consent flow is entered. With the
  client-secrets file present and loading, the calls after the token load are the load of
  the client secrets, exactly one run of the consent flow and, after a completed flow, the
  write of the new token.

  Fifth, in the same case with no client-secrets file, the guard of lines 60 and 61
  raises before any flow is started.
\<close>

theorem credential_resolution_order:
  "(google_service_account_path (settings enva) = Some patha \<and> patha \<noteq> [] \<and>
    files wa patha = Some keya \<and>
    from_service_account_file enva (remote wa) keya scopesa = (resa, ra) \<longrightarrow>
      fst (get_credentials enva scopesa wa) =
        (case resa of
           Inl e \<Rightarrow> Inl (GoogleAuthError (''Failed to authenticate with Google: '' @ str_exn e))
         | Inr c \<Rightarrow> Inr c) \<and>
      new_io wa (snd (get_credentials enva scopesa wa)) =
        [PathExists patha True, Log INFO ''Using service account authentication'',
         ServiceAccountLoad patha resa] @
        (case resa of
           Inl e \<Rightarrow> [Log ERROR (''Error in Google authentication: '' @ str_exn e)]
         | Inr c \<Rightarrow> [])) \<and>
   (\<not> service_account_configured envb wb \<and>
    files wb (google_token_path (settings envb)) = Some textb \<and>
    from_authorized_user_file envb (remote wb) textb scopesb = (Inr cb, rb) \<and>
    valid cb \<longrightarrow>
      fst (get_credentials envb scopesb wb) = Inr cb \<and>
      filter (\<lambda>x. \<not> is_Log x \<and> \<not> is_PathExists x)
        (new_io wb (snd (get_credentials envb scopesb wb))) =
        [TokenLoad (google_token_path (settings envb)) (Inr cb)] \<and>
      files (snd (get_credentials envb scopesb wb)) = files wb) \<and>
   (\<not> service_account_configured envc wc \<and>
    files wc (google_token_path (settings envc)) = Some textc \<and>
    from_authorized_user_file envc (remote wc) textc scopesc = (Inr cc, rc) \<and>
    \<not> valid cc \<and> expired cc \<and> truthy (refresh_token cc) \<and>
    refresh envc rc cc = (resc, rc2) \<longrightarrow>
      fst (get_credentials envc scopesc wc) =
        (case resc of
           Inl e \<Rightarrow> Inl (GoogleAuthError (''Failed to authenticate with Google: '' @ str_exn e))
         | Inr c' \<Rightarrow>
             (case open_w envc rc2 (google_token_path (settings envc)) of
                None \<Rightarrow> Inr c'
              | Some e \<Rightarrow>
                  Inl (GoogleAuthError
                         (''Failed to authenticate with Google: '' @ str_exn e)))) \<and>
      filter (\<lambda>x. \<not> is_Log x \<and> \<not> is_PathExists x)
        (new_io wc (snd (get_credentials envc scopesc wc))) =
        TokenLoad (google_token_path (settings envc)) (Inr cc) # Refresh resc #
        (case resc of
           Inl e \<Rightarrow> []
         | Inr c' \<Rightarrow>
             [FileWrite (google_token_path (settings envc)) (to_json c')
                (open_w envc rc2 (google_token_path (settings envc)))]) \<and>
      Log INFO ''Creating new credentials via OAuth flow''
        \<notin> set (new_io wc (snd (get_credentials envc scopesc wc)))) \<and>
   (\<not> service_account_configured envd wd \<and>
    ((files wd (google_token_path (settings envd)) = None \<and> rd = remote wd) \<or>
     (\<exists>text. files wd (google_token_path (settings envd)) = Some text \<and>
        snd (from_authorized_user_file envd (remote wd) text scopesd) = rd \<and>
        (case fst (from_authorized_user_file envd (remote wd) text scopesd) of
           Inl e \<Rightarrow> True
         | Inr c \<Rightarrow> \<not> valid c \<and> \<not> (expired c \<and> truthy (refresh_token c))))) \<and>
    files wd (google_credentials_path (settings envd)) = Some secretsd \<and>
    from_client_secrets_file envd rd secretsd scopesd = (Inr fld, rd2) \<and>
    run_local_server envd rd2 fld = (resd, rd3) \<longrightarrow>
      fst (get_credentials envd scopesd wd) =
        (case resd of
           Inl e \<Rightarrow> Inl (GoogleAuthError (''Failed to authenticate with Google: '' @ str_exn e))
         | Inr c' \<Rightarrow>
             (case open_w envd rd3 (google_token_path (settings envd)) of
                None \<Rightarrow> Inr c'
              | Some e \<Rightarrow>
                  Inl (GoogleAuthError
                         (''Failed to authenticate with Google: '' @ str_exn e)))) \<and>
      Log INFO ''Creating new credentials via OAuth flow''
        \<in> set (new_io wd (snd (get_credentials envd scopesd wd))) \<and>
      filter (\<lambda>x. \<not> is_Log x \<and> \<not> is_PathExists x \<and> \<not> is_TokenLoad x)
        (new_io wd (snd (get_credentials envd scopesd wd))) =
        FlowLoad (google_credentials_path (settings envd)) (Inr fld) # RunLocalServer resd #
        (case resd of
           Inl e \<Rightarrow> []
         | Inr c' \<Rightarrow>
             [FileWrite (google_token_path (settings envd)) (to_json c')
                (open_w envd rd3 (google_token_path (settings envd)))])) \<and>
   (\<not> service_account_configured enve we \<and>
    ((files we (google_token_path (settings enve)) = None \<and> re = remote we) \<or>
     (\<exists>text. files we (google_token_path (settings enve)) = Some text \<and>
        snd (from_authorized_user_file enve (remote we) text scopese) = re \<and>
        (case fst (from_authorized_user_file enve (remote we) text scopese) of
           Inl e \<Rightarrow> True
         | Inr c \<Rightarrow> \<not> valid c \<and> \<not> (expired c \<and> truthy (refresh_token c))))) \<and>
    files we (google_credentials_path (settings enve)) = None \<longrightarrow>
      fst (get_credentials enve scopese we) =
        Inl (GoogleAuthError
               (''Failed to authenticate with Google: Credentials file not found: '' @
                google_credentials_path (settings enve))) \<and>
      Log INFO ''Creating new credentials via OAuth flow''
        \<in> set (new_io we (snd (get_credentials enve scopese we))) \<and>
      filter (\<lambda>x. \<not> is_Log x \<and> \<not> is_PathExists x \<and> \<not> is_TokenLoad x)
        (new_io we (snd (get_credentials enve scopese we))) = [])"
proof (intro conjI)
  show "google_service_account_path (settings enva) = Some patha \<and> patha \<noteq> [] \<and>
    files wa patha = Some keya \<and>
    from_service_account_file enva (remote wa) keya scopesa = (resa, ra) \<longrightarrow>
      fst (get_credentials enva scopesa wa) =
        (case resa of
           Inl e \<Rightarrow> Inl (GoogleAuthError (''Failed to authenticate with Google: '' @ str_exn e))
         | Inr c \<Rightarrow> Inr c) \<and>
      new_io wa (snd (get_credentials enva scopesa wa)) =
        [PathExists patha True, Log INFO ''Using service account authentication'',
         ServiceAccountLoad patha resa] @
        (case resa of
           Inl e \<Rightarrow> [Log ERROR (''Error in Google authentication: '' @ str_exn e)]
         | Inr c \<Rightarrow> [])"
    using get_credentials_service_account [of enva patha wa keya scopesa resa ra] by blast
next
  show "\<not> service_account_configured envb wb \<and>
    files wb (google_token_path (settings envb)) = Some textb \<and>
    from_authorized_user_file envb (remote wb) textb scopesb = (Inr cb, rb) \<and>
    valid cb \<longrightarrow>
      fst (get_credentials envb scopesb wb) = Inr cb \<and>
      filter (\<lambda>x. \<not> is_Log x \<and> \<not> is_PathExists x)
        (new_io wb (snd (get_credentials envb scopesb wb))) =
        [TokenLoad (google_token_path (settings envb)) (Inr cb)] \<and>
      files (snd (get_credentials envb scopesb wb)) = files wb"
    using get_credentials_valid_token [of envb wb textb scopesb cb rb] by blast
next
  show "\<not> service_account_configured envc wc \<and>
    files wc (google_token_path (settings envc)) = Some textc \<and>
    from_authorized_user_file envc (remote wc) textc scopesc = (Inr cc, rc) \<and>
    \<not> valid cc \<and> expired cc \<and> truthy (refresh_token cc) \<and>
    refresh envc rc cc = (resc, rc2) \<longrightarrow>
      fst (get_credentials envc scopesc wc) =
        (case resc of
           Inl e \<Rightarrow> Inl (GoogleAuthError (''Failed to authenticate with Google: '' @ str_exn e))
         | Inr c' \<Rightarrow>
             (case open_w envc rc2 (google_token_path (settings envc)) of
                None \<Rightarrow> Inr c'
              | Some e \<Rightarrow>
                  Inl (GoogleAuthError
                         (''Failed to authenticate with Google: '' @ str_exn e)))) \<and>
      filter (\<lambda>x. \<not> is_Log x \<and> \<not> is_PathExists x)
        (new_io wc (snd (get_credentials envc scopesc wc))) =
        TokenLoad (google_token_path (settings envc)) (Inr cc) # Refresh resc #
        (case resc of
           Inl e \<Rightarrow> []
         | Inr c' \<Rightarrow>
             [FileWrite (google_token_path (settings envc)) (to_json c')
                (open_w envc rc2 (google_token_path (settings envc)))]) \<and>
      Log INFO ''Creating new credentials via OAuth flow''
        \<notin> set (new_io wc (snd (get_credentials envc scopesc wc)))"
    using get_credentials_refreshable_token [of envc wc textc scopesc cc rc resc rc2] by blast
next
  show "\<not> service_account_configured envd wd \<and>
    ((files wd (google_token_path (settings envd)) = None \<and> rd = remote wd) \<or>
     (\<exists>text. files wd (google_token_path (settings envd)) = Some text \<and>
        snd (from_authorized_user_file envd (remote wd) text scopesd) = rd \<and>
        (case fst (from_authorized_user_file envd (remote wd) text scopesd) of
           Inl e \<Rightarrow> True
         | Inr c \<Rightarrow> \<not> valid c \<and> \<not> (expired c \<and> truthy (refresh_token c))))) \<and>
    files wd (google_credentials_path (settings envd)) = Some secretsd \<and>
    from_client_secrets_file envd rd secretsd scopesd = (Inr fld, rd2) \<and>
    run_local_server envd rd2 fld = (resd, rd3) \<longrightarrow>
      fst (get_credentials envd scopesd wd) =
        (case resd of
           Inl e \<Rightarrow> Inl (GoogleAuthError (''Failed to authenticate with Google: '' @ str_exn e))
         | Inr c' \<Rightarrow>
             (case open_w envd rd3 (google_token_path (settings envd)) of
                None \<Rightarrow> Inr c'
              | Some e \<Rightarrow>
                  Inl (GoogleAuthError
                         (''Failed to authenticate with Google: '' @ str_exn e)))) \<and>
      Log INFO ''Creating new credentials via OAuth flow''
        \<in> set (new_io wd (snd (get_credentials envd scopesd wd))) \<and>
      filter (\<lambda>x. \<not> is_Log x \<and> \<not> is_PathExists x \<and> \<not> is_TokenLoad x)
        (new_io wd (snd (get_credentials envd scopesd wd))) =
        FlowLoad (google_credentials_path (settings envd)) (Inr fld) # RunLocalServer resd #
        (case resd of
           Inl e \<Rightarrow> []
         | Inr c' \<Rightarrow>
             [FileWrite (google_token_path (settings envd)) (to_json c')
                (open_w envd rd3 (google_token_path (settings envd)))])"
  proof (intro impI, elim conjE)
    assume "\<not> service_account_configured envd wd"
      and "(files wd (google_token_path (settings envd)) = None \<and> rd = remote wd) \<or>
     (\<exists>text. files wd (google_token_path (settings envd)) = Some text \<and>
        snd (from_authorized_user_file envd (remote wd) text scopesd) = rd \<and>
        (case fst (from_authorized_user_file envd (remote wd) text scopesd) of
           Inl e \<Rightarrow> True
         | Inr c \<Rightarrow> \<not> valid c \<and> \<not> (expired c \<and> truthy (refresh_token c))))"
      and "files wd (google_credentials_path (settings envd)) = Some secretsd"
      and "from_client_secrets_file envd rd secretsd scopesd = (Inr fld, rd2)"
      and "run_local_server envd rd2 fld = (resd, rd3)"
    then show "fst (get_credentials envd scopesd wd) =
        (case resd of
           Inl e \<Rightarrow> Inl (GoogleAuthError (''Failed to authenticate with Google: '' @ str_exn e))
         | Inr c' \<Rightarrow>
             (case open_w envd rd3 (google_token_path (settings envd)) of
                None \<Rightarrow> Inr c'
              | Some e \<Rightarrow>
                  Inl (GoogleAuthError
                         (''Failed to authenticate with Google: '' @ str_exn e)))) \<and>
      Log INFO ''Creating new credentials via OAuth flow''
        \<in> set (new_io wd (snd (get_credentials envd scopesd wd))) \<and>
      filter (\<lambda>x. \<not> is_Log x \<and> \<not> is_PathExists x \<and> \<not> is_TokenLoad x)
        (new_io wd (snd (get_credentials envd scopesd wd))) =
        FlowLoad (google_credentials_path (settings envd)) (Inr fld) # RunLocalServer resd #
        (case resd of
           Inl e \<Rightarrow> []
         | Inr c' \<Rightarrow>
             [FileWrite (google_token_path (settings envd)) (to_json c')
                (open_w envd rd3 (google_token_path (settings envd)))])"
      by (rule get_credentials_consent_flow)
  qed
next
  show "\<not> service_account_configured enve we \<and>
    ((files we (google_token_path (settings enve)) = None \<and> re = remote we) \<or>
     (\<exists>text. files we (google_token_path (settings enve)) = Some text \<and>
        snd (from_authorized_user_file enve (remote we) text scopese) = re \<and>
        (case fst (from_authorized_user_file enve (remote we) text scopese) of
           Inl e \<Rightarrow> True
         | Inr c \<Rightarrow> \<not> valid c \<and> \<not> (expired c \<and> truthy (refresh_token c))))) \<and>
    files we (google_credentials_path (settings enve)) = None \<longrightarrow>
      fst (get_credentials enve scopese we) =
        Inl (GoogleAuthError
               (''Failed to authenticate with Google: Credentials file not found: '' @
                google_credentials_path (settings enve))) \<and>
      Log INFO ''Creating new credentials via OAuth flow''
        \<in> set (new_io we (snd (get_credentials enve scopese we))) \<and>
      filter (\<lambda>x. \<not> is_Log x \<and> \<not> is_PathExists x \<and> \<not> is_TokenLoad x)
        (new_io we (snd (get_credentials enve scopese we))) = []"
  proof (intro impI, elim conjE)
    assume "\<not> service_account_configured enve we"
      and "(files we (google_token_path (settings enve)) = None \<and> re = remote we) \<or>
     (\<exists>text. files we (google_token_path (settings enve)) = Some text \<and>
        snd (from_authorized_user_file enve (remote we) text scopese) = re \<and>
        (case fst (from_authorized_user_file enve (remote we) text scopese) of
           Inl e \<Rightarrow> True
         | Inr c \<Rightarrow> \<not> valid c \<and> \<not> (expired c \<and> truthy (refresh_token c))))"
      and "files we (google_credentials_path (settings enve)) = None"
    then show "fst (get_credentials enve scopese we) =
        Inl (GoogleAuthError
               (''Failed to authenticate with Google: Credentials file not found: '' @
                google_credentials_path (settings enve))) \<and>
      Log INFO ''Creating new credentials via OAuth flow''
        \<in> set (new_io we (snd (get_credentials enve scopese we))) \<and>
      filter (\<lambda>x. \<not> is_Log x \<and> \<not> is_PathExists x \<and> \<not> is_TokenLoad x)
        (new_io we (snd (get_credentials enve scopese we))) = []"
      by (rule get_credentials_no_client_secrets)
  qed
qed

theorem credential_resolution_order_witness:
  "files (stub_world [''service-account.json'' \<mapsto> ''key'', ''token.json'' \<mapsto> ''valid''])
     ''service-account.json'' = Some ''key'' \<and>
   fst (get_credentials (stub_env service_account_settings) []
          (stub_world [''service-account.json'' \<mapsto> ''key'', ''token.json'' \<mapsto> ''valid''])) =
     Inr (usable ''service-account'') \<and>
   new_io (stub_world [''service-account.json'' \<mapsto> ''key'', ''token.json'' \<mapsto> ''valid''])
     (snd (get_credentials (stub_env service_account_settings) []
        (stub_world [''service-account.json'' \<mapsto> ''key'', ''token.json'' \<mapsto> ''valid'']))) =
     [PathExists ''service-account.json'' True,
      Log INFO ''Using service account authentication'',
      ServiceAccountLoad ''service-account.json'' (Inr (usable ''service-account''))] \<and>
   \<not> service_account_configured (stub_env default_settings)
       (stub_world [''token.json'' \<mapsto> ''valid'']) \<and>
   fst (get_credentials (stub_env default_settings) []
          (stub_world [''token.json'' \<mapsto> ''valid''])) = Inr (usable ''valid'') \<and>
   filter (\<lambda>x. \<not> is_Log x \<and> \<not> is_PathExists x)
     (new_io (stub_world [''token.json'' \<mapsto> ''valid''])
        (snd (get_credentials (stub_env default_settings) []
           (stub_world [''token.json'' \<mapsto> ''valid''])))) =
     [TokenLoad ''token.json'' (Inr (usable ''valid''))] \<and>
   fst (get_credentials (stub_env default_settings) []
          (stub_world [''token.json'' \<mapsto> ''expired''])) = Inr (usable ''refreshed'') \<and>
   filter (\<lambda>x. \<not> is_Log x \<and> \<not> is_PathExists x)
     (new_io (stub_world [''token.json'' \<mapsto> ''expired''])
        (snd (get_credentials (stub_env default_settings) []
           (stub_world [''token.json'' \<mapsto> ''expired''])))) =
     [TokenLoad ''token.json''
        (Inr \<lparr>valid = False, expired = True, refresh_token = Some ''refresh'',
               to_json = ''expired''\<rparr>),
      Refresh (Inr (usable ''refreshed'')),
      FileWrite ''token.json'' ''refreshed'' None] \<and>
   fst (get_credentials (stub_env default_settings) []
          (stub_world [''token.json'' \<mapsto> ''no-refresh'', ''credentials.json'' \<mapsto> ''client''])) =
     Inr (usable ''consented'') \<and>
   filter (\<lambda>x. \<not> is_Log x \<and> \<not> is_PathExists x \<and> \<not> is_TokenLoad x)
     (new_io (stub_world [''token.json'' \<mapsto> ''no-refresh'', ''credentials.json'' \<mapsto> ''client''])
        (snd (get_credentials (stub_env default_settings) []
           (stub_world [''token.json'' \<mapsto> ''no-refresh'', ''credentials.json'' \<mapsto> ''client''])))) =
     [FlowLoad ''credentials.json'' (Inr (InstalledAppFlow ''client'' [])),
      RunLocalServer (Inr (usable ''consented'')),
      FileWrite ''token.json'' ''consented'' None] \<and>
   fst (get_credentials (stub_env default_settings) [] (stub_world Map.empty)) =
     Inl (GoogleAuthError
       ''Failed to authenticate with Google: Credentials file not found: credentials.json'') \<and>
   filter (\<lambda>x. \<not> is_Log x \<and> \<not> is_PathExists x \<and> \<not> is_TokenLoad x)
     (new_io (stub_world Map.empty)
        (snd (get_credentials (stub_env default_settings) [] (stub_world Map.empty)))) = []"
proof -
  let ?E = "stub_env default_settings"
  let ?Wa = "stub_world [''service-account.json'' \<mapsto> ''key'', ''token.json'' \<mapsto> ''valid'']"
  let ?Wb = "stub_world [''token.json'' \<mapsto> ''valid'']"
  let ?Wc = "stub_world [''token.json'' \<mapsto> ''expired'']"
  let ?Wd = "stub_world [''token.json'' \<mapsto> ''no-refresh'', ''credentials.json'' \<mapsto> ''client'']"
  let ?We = "stub_world Map.empty"
  let ?old = "\<lparr>valid = False, expired = True, refresh_token = Some ''refresh'',
               to_json = ''expired''\<rparr>"
  note all = credential_resolution_order
    [where enva = "stub_env service_account_settings" and patha = "''service-account.json''"
       and wa = ?Wa and keya = "''key''" and scopesa = "[]"
       and resa = "Inr (usable ''service-account'')" and ra = 0
       and envb = ?E and wb = ?Wb and textb = "''valid''" and scopesb = "[]"
       and cb = "usable ''valid''" and rb = 0
       and envc = ?E and wc = ?Wc and textc = "''expired''" and scopesc = "[]"
       and cc = ?old and rc = 0 and resc = "Inr (usable ''refreshed'')" and ?rc2.0 = 1
       and envd = ?E and wd = ?Wd and rd = 0 and secretsd = "''client''" and scopesd = "[]"
       and fld = "InstalledAppFlow ''client'' []" and ?rd2.0 = 0
       and resd = "Inr (usable ''consented'')" and ?rd3.0 = 1
       and enve = ?E and we = ?We and re = 0 and scopese = "[]"]
  have a: "google_service_account_path (settings (stub_env service_account_settings)) =
        Some ''service-account.json'' \<and> ''service-account.json'' \<noteq> [] \<and>
      files ?Wa ''service-account.json'' = Some ''key'' \<and>
      from_service_account_file (stub_env service_account_settings) (remote ?Wa) ''key'' [] =
        (Inr (usable ''service-account''), 0)"
    by (simp add: run_simps)
  have b: "\<not> service_account_configured ?E ?Wb \<and>
      files ?Wb (google_token_path (settings ?E)) = Some ''valid'' \<and>
      from_authorized_user_file ?E (remote ?Wb) ''valid'' [] = (Inr (usable ''valid''), 0) \<and>
      valid (usable ''valid'')"
    by (simp add: service_account_configured_def run_simps)
  have c: "\<not> service_account_configured ?E ?Wc \<and>
      files ?Wc (google_token_path (settings ?E)) = Some ''expired'' \<and>
      from_authorized_user_file ?E (remote ?Wc) ''expired'' [] = (Inr ?old, 0) \<and>
      \<not> valid ?old \<and> expired ?old \<and> truthy (refresh_token ?old) \<and>
      refresh ?E 0 ?old = (Inr (usable ''refreshed''), 1)"
    by (simp add: service_account_configured_def run_simps)
  have d: "\<not> service_account_configured ?E ?Wd \<and>
      ((files ?Wd (google_token_path (settings ?E)) = None \<and> 0 = remote ?Wd) \<or>
       (\<exists>text. files ?Wd (google_token_path (settings ?E)) = Some text \<and>
          snd (from_authorized_user_file ?E (remote ?Wd) text []) = 0 \<and>
          (case fst (from_authorized_user_file ?E (remote ?Wd) text []) of
             Inl e \<Rightarrow> True
           | Inr c \<Rightarrow> \<not> valid c \<and> \<not> (expired c \<and> truthy (refresh_token c))))) \<and>
      files ?Wd (google_credentials_path (settings ?E)) = Some ''client'' \<and>
      from_client_secrets_file ?E 0 ''client'' [] = (Inr (InstalledAppFlow ''client'' []), 0) \<and>
      run_local_server ?E 0 (InstalledAppFlow ''client'' []) = (Inr (usable ''consented''), 1)"
    by (simp add: service_account_configured_def run_simps)
  have e: "\<not> service_account_configured ?E ?We \<and>
      ((files ?We (google_token_path (settings ?E)) = None \<and> 0 = remote ?We) \<or>
       (\<exists>text. files ?We (google_token_path (settings ?E)) = Some text \<and>
          snd (from_authorized_user_file ?E (remote ?We) text []) = 0 \<and>
          (case fst (from_authorized_user_file ?E (remote ?We) text []) of
             Inl e \<Rightarrow> True
           | Inr c \<Rightarrow> \<not> valid c \<and> \<not> (expired c \<and> truthy (refresh_token c))))) \<and>
      files ?We (google_credentials_path (settings ?E)) = None"
    by (simp add: service_account_configured_def run_simps)
  note ca = all [THEN conjunct1, THEN mp, OF a]
  note cb = all [THEN conjunct2, THEN conjunct1, THEN mp, OF b]
  note cc = all [THEN conjunct2, THEN conjunct2, THEN conjunct1, THEN mp, OF c]
  note cd = all [THEN conjunct2, THEN conjunct2, THEN conjunct2, THEN conjunct1, THEN mp, OF d]
  note ce = all [THEN conjunct2, THEN conjunct2, THEN conjunct2, THEN conjunct2, THEN mp, OF e]
  have fa: "files ?Wa ''service-account.json'' = Some ''key''"
    and nb: "\<not> service_account_configured ?E ?Wb"
    by (simp_all add: service_account_configured_def run_simps)
  have t: "google_token_path (settings ?E) = ''token.json''"
    and s: "google_credentials_path (settings ?E) = ''credentials.json''"
    and o: "open_w ?E = (\<lambda>r path. None)"
    and u: "to_json (usable ''refreshed'') = ''refreshed''"
      "to_json (usable ''consented'') = ''consented''"
    by (simp_all add: stub_env_def default_settings_def usable_def)
  from ca cb cc cd ce fa nb show ?thesis
    by (simp add: t s o u)
qed

end
